theory Spec2Isabelle
  imports Complex_Main "HOL-Library.AList"
begin

section \<open>Python values and exceptions\<close>

text \<open>
  The two netlog modules are Python 2. A byte string (\<open>str\<close>) is a \<open>string\<close>, a list of
  8-bit characters; text (\<open>unicode\<close>) is carried as a \<open>string\<close> as well, so only code points
  below 256 are represented. Integers are unbounded. A float is modelled by the rational it
  denotes: rounding, infinities and NaN are not represented. \<open>PInt64\<close> is the decoder's
  \<open>bson.int64.Int64\<close>, \<open>PDatetime\<close> a \<open>datetime\<close> given by its timestamp, \<open>PDict\<close> a decoded
  sub-document (its keys are text).
\<close>

datatype pv =
    PNone
  | PBool bool
  | PInt int
  | PInt64 int
  | PFloat rat
  | PStr string
  | PUni string
  | PDatetime rat
  | PList "pv list"
  | PDict "(string \<times> pv) list"

datatype exn =
    IndexError
  | KeyError
  | TypeError
  | ValueError
  | AttributeError
  | UnboundLocalError
  | UnicodeError
  | OverflowError
  | RuntimeError
  | StructError
  | CuckooResultError

text \<open>
  A document, decoded or about to be encoded, is a dictionary with text keys: an
  association list whose keys are distinct.
\<close>

type_synonym doc = "(string \<times> pv) list"

text \<open>\<open>d.get(k, default)\<close> and \<open>k in d\<close> on a document.\<close>

definition dget :: "doc \<Rightarrow> string \<Rightarrow> pv \<Rightarrow> pv" where
  "dget d k dflt = (case map_of d k of None \<Rightarrow> dflt | Some v \<Rightarrow> v)"

definition dhas :: "doc \<Rightarrow> string \<Rightarrow> bool" where
  "dhas d k = (map_of d k \<noteq> None)"

text \<open>
  Sequence indexing \<open>xs[i]\<close>: a negative index counts from the end, anything outside
  \<open>-len \<dots> len-1\<close> raises \<open>IndexError\<close> (here \<open>None\<close>).
\<close>

definition py_index :: "'a list \<Rightarrow> int \<Rightarrow> nat option" where
  "py_index xs i =
     (if 0 \<le> i \<and> i < int (length xs) then Some (nat i)
      else if i < 0 \<and> - int (length xs) \<le> i then Some (nat (int (length xs) + i))
      else None)"

definition py_nth :: "'a list \<Rightarrow> int \<Rightarrow> 'a option" where
  "py_nth xs i = (case py_index xs i of None \<Rightarrow> None | Some k \<Rightarrow> Some (xs ! k))"

section \<open>Frame codec\<close>

text \<open>
  \<open>MAX_MESSAGE_LENGTH\<close> of \<open>lib/cuckoo/common/netlog.py\<close>, and \<open>struct.unpack("I", data)[0]\<close>
  on four bytes. The format \<open>"I"\<close> is the host's unsigned int; the model is a little-endian
  host, which is also the byte order of the length that opens every BSON document.
\<close>

definition MAX_MESSAGE_LENGTH :: nat where
  "MAX_MESSAGE_LENGTH = 20 * 1024 * 1024"

definition unpack_I :: "string \<Rightarrow> nat" where
  "unpack_I data =
     of_char (data ! 0) + 256 * of_char (data ! 1) + 65536 * of_char (data ! 2)
       + 16777216 * of_char (data ! 3)"

definition pack_I :: "nat \<Rightarrow> string" where
  "pack_I n = [char_of n, char_of (n div 256), char_of (n div 65536), char_of (n div 16777216)]"

text \<open>
  The stream \<open>fd\<close> is a file read from position 0 (\<open>self.fd.seek(0)\<close>), given by the bytes
  not yet read. \<open>fd.read(n)\<close> returns the bytes read, at most \<open>n\<close>, and what is left; a
  negative \<open>n\<close> reads to the end.
\<close>

definition fd_read :: "string \<Rightarrow> int \<Rightarrow> string \<times> string" where
  "fd_read fd n = (if n < 0 then (fd, []) else (take (nat n) fd, drop (nat n) fd))"

text \<open>
  The reasons for which \<open>BsonParser.__iter__\<close> returns: no byte left, one of the two
  "lacking data" messages, the message-too-large message, the decoding problem.
\<close>

datatype stop = EndOfStream | LackingData | TooLarge | DecodingProblem

text \<open>
  Lines 144 to 161 of \<open>BsonParser.__iter__\<close>: the frame handed to the decoder (the four
  length bytes and what follows them) and the rest of the stream, or the reason to return.
\<close>

definition read_frame :: "string \<Rightarrow> stop + (string \<times> string)" where
  "read_frame fd =
     (let data = fst (fd_read fd 4); fd1 = snd (fd_read fd 4) in
      if data = [] then Inl EndOfStream
      else if length data \<noteq> 4 then Inl LackingData
      else
        let blen = unpack_I data in
        if blen > MAX_MESSAGE_LENGTH then Inl TooLarge
        else
          let more = fd_read fd1 (int blen - 4); data' = data @ fst more in
          if length data' < blen then Inl LackingData
          else Inr (data', snd more))"

section \<open>Sender: the socket and \<open>log_raw_direct\<close>\<close>

text \<open>
  The socket of \<open>ResultLogger\<close>: the bytes put on the wire so far, and for each coming
  \<open>send\<close> call how many bytes the transport takes (never more than it is given; 0 is the
  broken connection). Once the plan is used up a \<open>send\<close> takes the whole buffer.
\<close>

record sock =
  wire :: string
  plan :: "nat list"

definition sock_send :: "sock \<Rightarrow> string \<Rightarrow> nat \<times> sock" where
  "sock_send sk buf =
     (case plan sk of
        [] \<Rightarrow> (length buf, sk\<lparr>wire := wire sk @ buf\<rparr>)
      | k # ks \<Rightarrow> (min k (length buf), sk\<lparr>wire := wire sk @ take (min k (length buf)) buf, plan := ks\<rparr>))"

function log_raw_loop :: "sock \<Rightarrow> string \<Rightarrow> nat \<Rightarrow> exn option \<times> sock" where
  "log_raw_loop sk buf total' =
     (if total' < length buf then
        (if fst (sock_send sk (drop total' buf)) = 0
         then (Some RuntimeError, snd (sock_send sk (drop total' buf)))
         else log_raw_loop (snd (sock_send sk (drop total' buf))) buf
                (total' + fst (sock_send sk (drop total' buf))))
      else (None, sk))"
  by pat_completeness auto
termination
  by (relation "measure (\<lambda>(sk, buf, total'). length buf - total')") auto

declare log_raw_loop.simps [simp del]

definition log_raw_direct :: "sock \<Rightarrow> string \<Rightarrow> exn option \<times> sock" where
  "log_raw_direct sk buf = log_raw_loop sk buf 0"

text \<open>
  Modelled from the spec: \<open>write_frame\<close>. The sender under \<open>src/\<close> has no function that
  prepends a length; the four length bytes are the head of the document the BSON encoder
  returns, and the encoder is not part of the sources. Following section 4.1, the frame is
  the 4-byte unsigned length \<open>4 + len(body)\<close> followed by the body, and it is written
  with \<open>log_raw_direct\<close>. A length that does not fit four bytes cannot be packed.
\<close>

definition frame_of :: "string \<Rightarrow> string option" where
  "frame_of body =
     (if 4 + length body < 2 ^ 32 then Some (pack_I (4 + length body) @ body) else None)"

definition write_frame :: "sock \<Rightarrow> string \<Rightarrow> exn option \<times> sock" where
  "write_frame sk body =
     (case frame_of body of
        None \<Rightarrow> (Some StructError, sk)
      | Some f \<Rightarrow> log_raw_direct sk f)"

section \<open>Sender: \<open>ResultLogger\<close> of \<open>analyzer/linux/lib/core/netlog.py\<close>\<close>

definition SOCKET_SYSCALL_FILESYSTEM_NAMES :: "string list" where
  "SOCKET_SYSCALL_FILESYSTEM_NAMES =
     [''read'', ''write'', ''open'', ''close'', ''stat'', ''fstat'',
      ''lstat'', ''poll'', ''lseek'', ''access'', ''mkdir'', ''rename'',
      ''rmdir'', ''creat'', ''link'', ''unlink'', ''symlink'', ''readlink'',
      ''chmod'', ''fchmod'', ''chown'', ''fchown'', ''lchown'', ''umask'']"

definition SOCKET_SYSCALL_PROCESS_NAMES :: "string list" where
  "SOCKET_SYSCALL_PROCESS_NAMES =
     [''mmap'', ''mprotect'', ''brk'', ''clone'', ''fork'', ''vfork'',
      ''execve'', ''exit'', ''kill'', ''chdir'', ''fchdir'', ''sysinfo'', ''ptrace'']"

definition get_key :: "int \<Rightarrow> int" where
  "get_key pos = pos * 2"

definition get_value :: "int \<Rightarrow> int" where
  "get_value pos = pos * 2 + 1"

text \<open>
  What the sender takes from outside the sources: the set \<open>SOCKET_SYSCALL_NAMES\<close> of
  \<open>ptrace.syscall\<close>, the BSON encoder, and the builtins \<open>unicode\<close> and \<open>long\<close>. Each of the
  three functions either returns or raises.
\<close>

record sender_env =
  SOCKET_SYSCALL_NAMES :: "string list"
  bson_encode :: "doc \<Rightarrow> exn + string"
  unicode :: "pv \<Rightarrow> exn + pv"
  long :: "pv \<Rightarrow> exn + pv"

text \<open>
  The fields of \<open>ResultLogger\<close> that the emitting path reads or writes. \<open>start\<close> is \<open>None\<close>
  until \<open>log_init\<close> stores the start time.
\<close>

record ResultLogger =
  socket :: sock
  logtbl_explained :: "int list"
  start :: "rat option"
  self_pid :: pv

definition ResultLogger_init :: "sock \<Rightarrow> ResultLogger" where
  "ResultLogger_init sk =
     \<lparr>socket = sk, logtbl_explained = replicate 512 0, start = None, self_pid = PInt (- 1)\<rparr>"

text \<open>\<open>sub in s\<close> on byte strings.\<close>

fun str_contains :: "string \<Rightarrow> string \<Rightarrow> bool" where
  "str_contains sub [] = (sub = [])"
| "str_contains sub (c # cs) = (take (length sub) (c # cs) = sub \<or> str_contains sub cs)"

text \<open>The \<open>for arg in args\<close> loop of \<open>resolve_category\<close>: does it reach its \<open>return\<close>?\<close>

fun filename_arg :: "pv list \<Rightarrow> bool" where
  "filename_arg [] = False"
| "filename_arg (arg # args) =
     (case arg of
        PStr s \<Rightarrow> (if str_contains ''filename'' s then True else filename_arg args)
      | _ \<Rightarrow> filename_arg args)"

definition resolve_category :: "sender_env \<Rightarrow> string \<Rightarrow> pv list \<Rightarrow> string" where
  "resolve_category env name args =
     (if name \<in> set (SOCKET_SYSCALL_NAMES env) then ''network''
      else if name \<in> set SOCKET_SYSCALL_FILESYSTEM_NAMES then ''filesystem''
      else if name \<in> set SOCKET_SYSCALL_PROCESS_NAMES then ''process''
      else if filename_arg args then ''filesystem''
      else ''unkown'')"

text \<open>
  The first loop of \<open>loq\<close>, \<open>val = unicode(args[get_key(i)])\<close> for \<open>i\<close> in
  \<open>range(0, len(fmt))\<close>: the exception that ended it if any, the names appended, and the
  local \<open>val\<close> as the loop left it.
\<close>

fun explain_loop ::
  "sender_env \<Rightarrow> pv list \<Rightarrow> nat list \<Rightarrow> pv list \<Rightarrow> pv option \<Rightarrow> exn option \<times> pv list \<times> pv option"
where
  "explain_loop env args [] acc val = (None, acc, val)"
| "explain_loop env args (i # is) acc val =
     (case py_nth args (get_key (int i)) of
        None \<Rightarrow> (Some IndexError, acc, val)
      | Some a \<Rightarrow>
          (case unicode env a of
             Inl e \<Rightarrow> (Some e, acc, val)
           | Inr v \<Rightarrow> explain_loop env args is (acc @ [v]) (Some v)))"

text \<open>
  The second loop, over the values. A format character other than \<open>l\<close> and \<open>u\<close> assigns
  nothing, so \<open>val\<close> keeps its last value, and is unbound when there is none.
\<close>

fun values_loop ::
  "sender_env \<Rightarrow> string \<Rightarrow> pv list \<Rightarrow> nat list \<Rightarrow> pv list \<Rightarrow> pv option \<Rightarrow> exn + pv list"
where
  "values_loop env fmt args [] acc val = Inr acc"
| "values_loop env fmt args (i # is) acc val =
     (if fmt ! i = CHR ''l'' then
        (case py_nth args (get_value (int i)) of
           None \<Rightarrow> Inl IndexError
         | Some a \<Rightarrow>
             (case long env a of
                Inl e \<Rightarrow> Inl e
              | Inr v \<Rightarrow> values_loop env fmt args is (acc @ [v]) (Some v)))
      else if fmt ! i = CHR ''u'' then
        (case py_nth args (get_value (int i)) of
           None \<Rightarrow> Inl IndexError
         | Some a \<Rightarrow>
             (case unicode env a of
                Inl e \<Rightarrow> Inl e
              | Inr v \<Rightarrow> values_loop env fmt args is (acc @ [v]) (Some v)))
      else
        (case val of
           None \<Rightarrow> Inl UnboundLocalError
         | Some v \<Rightarrow> values_loop env fmt args is (acc @ [v]) val))"

text \<open>
  \<open>self.log_raw_direct(bson_encode(buf))\<close>: the exception if one is raised, the documents
  handed whole to the socket (one or none), and the logger with the socket as the call
  left it.
\<close>

definition send_doc :: "sender_env \<Rightarrow> ResultLogger \<Rightarrow> doc \<Rightarrow> exn option \<times> doc list \<times> ResultLogger" where
  "send_doc env s buf =
     (case bson_encode env buf of
        Inl e \<Rightarrow> (Some e, [], s)
      | Inr bytes \<Rightarrow>
          (case log_raw_direct (socket s) bytes of
             (Some e, sk) \<Rightarrow> (Some e, [], s\<lparr>socket := sk\<rparr>)
           | (None, sk) \<Rightarrow> (None, [buf], s\<lparr>socket := sk\<rparr>)))"

text \<open>
  The body of the \<open>try\<close> in \<open>loq\<close>: the exception that left it if any, the info frame if it
  was written, the logger, and the local \<open>val\<close>.
\<close>

definition loq_explain ::
  "sender_env \<Rightarrow> ResultLogger \<Rightarrow> int \<Rightarrow> string \<Rightarrow> string \<Rightarrow> pv list
     \<Rightarrow> exn option \<times> doc list \<times> ResultLogger \<times> pv option"
where
  "loq_explain env s index name fmt args =
     (case py_index (logtbl_explained s) index of
        None \<Rightarrow> (Some IndexError, [], s, None)
      | Some k \<Rightarrow>
          if logtbl_explained s ! k = 0 then
            (let s1 = s\<lparr>logtbl_explained := (logtbl_explained s)[k := 1]\<rparr>;
                 category = resolve_category env name args
             in case explain_loop env args [0..<length fmt] [PStr ''is_success'', PStr ''retval''] None of
                  (Some e, names, val) \<Rightarrow> (Some e, [], s1, val)
                | (None, names, val) \<Rightarrow>
                    (case send_doc env s1
                            [(''I'', PInt index), (''name'', PStr name), (''type'', PStr ''info''),
                             (''category'', PStr category), (''args'', PList names)] of
                       (e, sent, s2) \<Rightarrow> (e, sent, s2, val)))
          else (None, [], s, None))"

text \<open>
  \<open>loq\<close>, run under the send lock, so one call at a time. \<open>now\<close> is what \<open>time.time()\<close>
  returns. The result is the exception that leaves the call if any, the frames the call
  wrote in order, and the logger after it. Only \<open>IndexError\<close> is caught by the \<open>try\<close>.
\<close>

definition loq ::
  "sender_env \<Rightarrow> ResultLogger \<Rightarrow> rat \<Rightarrow> int \<Rightarrow> string \<Rightarrow> pv \<Rightarrow> pv \<Rightarrow> string \<Rightarrow> pv list
     \<Rightarrow> exn option \<times> doc list \<times> ResultLogger"
where
  "loq env s now index name is_success return_value fmt args =
     (case loq_explain env s index name fmt args of
        (e, sent, s1, val) \<Rightarrow>
          if e \<noteq> None \<and> e \<noteq> Some IndexError then (e, sent, s1)
          else
            (case start s1 of
               None \<Rightarrow> (Some TypeError, sent, s1)
             | Some t0 \<Rightarrow>
                 (case values_loop env fmt args [0..<length fmt] [is_success, return_value] val of
                    Inl e' \<Rightarrow> (Some e', sent, s1)
                  | Inr vals \<Rightarrow>
                      (case send_doc env s1
                              [(''I'', PInt index), (''T'', self_pid s1), (''t'', PFloat (now - t0)),
                               (''args'', PList vals)] of
                         (e', sent', s2) \<Rightarrow> (e', sent @ sent', s2)))))"

text \<open>\<open>log_convert_types\<close>: one format character for each value, at the odd positions.\<close>

fun log_convert_types :: "pv list \<Rightarrow> string" where
  "log_convert_types (k # v # rest) =
     (case v of
        PInt n \<Rightarrow> CHR ''l''
      | PInt64 n \<Rightarrow> CHR ''l''
      | PBool b \<Rightarrow> CHR ''l''
      | _ \<Rightarrow> CHR ''u'') # log_convert_types rest"
| "log_convert_types rest = []"

text \<open>
  \<open>log_new_process\<close>; \<open>ms\<close> is \<open>long(round(time.time() * 1000))\<close>, and \<open>path\<close> is \<open>PNone\<close>
  when the caller leaves it out.
\<close>

definition log_new_process ::
  "sender_env \<Rightarrow> ResultLogger \<Rightarrow> rat \<Rightarrow> int \<Rightarrow> pv \<Rightarrow> pv \<Rightarrow> pv
     \<Rightarrow> exn option \<times> doc list \<times> ResultLogger"
where
  "log_new_process env s now ms pid' ppid path =
     (let arguments = [PStr ''TimeStamp'', PInt ms, PStr ''ProcessIdentifier'', pid',
                       PStr ''ParentProcessIdentifier'', ppid, PStr ''ModulePath'', path]
      in loq env (s\<lparr>self_pid := pid'\<rparr>) now 511 ''__process__'' (PInt 1) (PInt 0)
           (log_convert_types arguments) arguments)"

text \<open>
  The calls that emit on one connection, and a run of them in order. A call that raises
  leaves the logger as it was at the raise; the caller may go on emitting.
\<close>

datatype emit =
    Loq rat int string pv pv string "pv list"
  | NewProcess rat int pv pv pv

fun emit_call :: "sender_env \<Rightarrow> ResultLogger \<Rightarrow> emit \<Rightarrow> exn option \<times> doc list \<times> ResultLogger" where
  "emit_call env s (Loq now index name is_success return_value fmt args) =
     loq env s now index name is_success return_value fmt args"
| "emit_call env s (NewProcess now ms pid' ppid path) = log_new_process env s now ms pid' ppid path"

fun emit_all :: "sender_env \<Rightarrow> ResultLogger \<Rightarrow> emit list \<Rightarrow> doc list \<times> ResultLogger" where
  "emit_all env s [] = ([], s)"
| "emit_all env s (c # cs) =
     (case emit_call env s c of
        (e, sent, s1) \<Rightarrow> (case emit_all env s1 cs of (sent', s2) \<Rightarrow> (sent @ sent', s2)))"

text \<open>An info frame, the index a frame carries, and a data frame: what \<open>loq\<close> writes.\<close>

definition is_info :: "doc \<Rightarrow> bool" where
  "is_info d = (map_of d ''type'' = Some (PStr ''info''))"

definition frame_index :: "doc \<Rightarrow> pv option" where
  "frame_index d = map_of d ''I''"

definition info_for :: "int \<Rightarrow> doc \<Rightarrow> bool" where
  "info_for i d = (is_info d \<and> frame_index d = Some (PInt i))"

definition data_for :: "int \<Rightarrow> doc \<Rightarrow> bool" where
  "data_for i d = (\<not> is_info d \<and> frame_index d = Some (PInt i))"

text \<open>
  The table \<open>logtbl_explained\<close> after the test and assignment of lines 81 and 82 for
  \<open>index\<close>: a zero entry becomes 1, anything else stays, and so does the whole table when
  the index is out of range.
\<close>

definition explained :: "int list \<Rightarrow> int \<Rightarrow> int list" where
  "explained tbl index =
     (case py_index tbl index of
        None \<Rightarrow> tbl
      | Some k \<Rightarrow> if tbl ! k = 0 then tbl[k := 1] else tbl)"

text \<open>The index an emitting call passes to \<open>loq\<close>.\<close>

fun emit_index :: "emit \<Rightarrow> int" where
  "emit_index (Loq now index name is_success return_value fmt args) = index"
| "emit_index (NewProcess now ms pid' ppid path) = 511"

text \<open>
  The invariant of a connection, on the table and the frames written so far: the table
  keeps its 512 entries, each 0 or 1; no frame carries an index whose entry is still 0;
  each index has at most one info frame, and no data frame of that index before it.
\<close>

definition trace_inv :: "int list \<Rightarrow> doc list \<Rightarrow> bool" where
  "trace_inv tbl tr =
     (length tbl = 512 \<and> set tbl \<subseteq> {0, 1}
      \<and> (\<forall>d\<in>set tr. \<forall>i. frame_index d = Some (PInt i) \<longrightarrow> py_nth tbl i \<noteq> Some 0)
      \<and> (\<forall>i. length (filter (info_for i) tr) \<le> 1)
      \<and> (\<forall>i pre d post. tr = pre @ d # post \<and> info_for i d \<longrightarrow> (\<forall>x\<in>set pre. \<not> data_for i x)))"

section \<open>Receiver: \<open>lib/cuckoo/common/netlog.py\<close>\<close>

subsection \<open>Python operations the decoder applies to decoded values\<close>

text \<open>
  Dictionary keys. Python compares keys with \<open>==\<close>: numbers of any numeric type by value,
  a byte string and a text when both are the same ASCII characters. A list and a
  dictionary are unhashable (\<open>None\<close> here, \<open>TypeError\<close> in the code).
\<close>

datatype pykey = KNone | KNum rat | KText string | KBytes string | KUni string | KDate rat

definition ascii :: "string \<Rightarrow> bool" where
  "ascii s = list_all (\<lambda>c. (of_char c :: nat) < 128) s"

definition text_key :: "string \<Rightarrow> pykey" where
  "text_key s = (if ascii s then KText s else KUni s)"

definition py_key :: "pv \<Rightarrow> pykey option" where
  "py_key v =
     (case v of
        PNone \<Rightarrow> Some KNone
      | PBool b \<Rightarrow> Some (KNum (if b then 1 else 0))
      | PInt n \<Rightarrow> Some (KNum (of_int n))
      | PInt64 n \<Rightarrow> Some (KNum (of_int n))
      | PFloat q \<Rightarrow> Some (KNum q)
      | PStr s \<Rightarrow> Some (if ascii s then KText s else KBytes s)
      | PUni s \<Rightarrow> Some (text_key s)
      | PDatetime t \<Rightarrow> Some (KDate t)
      | PList xs \<Rightarrow> None
      | PDict kvs \<Rightarrow> None)"

text \<open>\<open>v == s\<close> for a byte string \<open>s\<close>.\<close>

definition py_eq_str :: "pv \<Rightarrow> string \<Rightarrow> bool" where
  "py_eq_str v s = (v = PStr s \<or> (v = PUni s \<and> ascii s))"

text \<open>
  \<open>"... {0} ...".format(v)\<close> on a byte-string template: a text outside ASCII cannot be
  encoded (\<open>UnicodeEncodeError\<close>), anything else is formatted.
\<close>

definition format_ok :: "pv \<Rightarrow> bool" where
  "format_ok v = (case v of PUni s \<Rightarrow> ascii s | _ \<Rightarrow> True)"

text \<open>The truth value of \<open>v\<close> in an \<open>if\<close>.\<close>

definition py_truthy :: "pv \<Rightarrow> bool" where
  "py_truthy v =
     (case v of
        PNone \<Rightarrow> False
      | PBool b \<Rightarrow> b
      | PInt n \<Rightarrow> n \<noteq> 0
      | PInt64 n \<Rightarrow> n \<noteq> 0
      | PFloat q \<Rightarrow> q \<noteq> 0
      | PStr s \<Rightarrow> s \<noteq> []
      | PUni s \<Rightarrow> s \<noteq> []
      | PDatetime t \<Rightarrow> True
      | PList xs \<Rightarrow> xs \<noteq> []
      | PDict kvs \<Rightarrow> kvs \<noteq> [])"

text \<open>\<open>for x in v\<close>: the items, or \<open>TypeError\<close> when \<open>v\<close> is not iterable.\<close>

definition py_iter :: "pv \<Rightarrow> exn + pv list" where
  "py_iter v =
     (case v of
        PList xs \<Rightarrow> Inr xs
      | PStr s \<Rightarrow> Inr (map (\<lambda>c. PStr [c]) s)
      | PUni s \<Rightarrow> Inr (map (\<lambda>c. PUni [c]) s)
      | PDict kvs \<Rightarrow> Inr (map (\<lambda>kv. PUni (fst kv)) kvs)
      | _ \<Rightarrow> Inl TypeError)"

text \<open>\<open>len(v)\<close>, and the values \<open>v[0], \<dots>, v[len(v) - 1]\<close> read in this order.\<close>

definition py_len :: "pv \<Rightarrow> nat option" where
  "py_len v =
     (case v of
        PList xs \<Rightarrow> Some (length xs)
      | PStr s \<Rightarrow> Some (length s)
      | PUni s \<Rightarrow> Some (length s)
      | PDict kvs \<Rightarrow> Some (length kvs)
      | _ \<Rightarrow> None)"

definition py_elems :: "pv \<Rightarrow> exn + pv list" where
  "py_elems v =
     (case v of
        PList xs \<Rightarrow> Inr xs
      | PStr s \<Rightarrow> Inr (map (\<lambda>c. PStr [c]) s)
      | PUni s \<Rightarrow> Inr (map (\<lambda>c. PUni [c]) s)
      | PDict kvs \<Rightarrow> (if kvs = [] then Inr [] else Inl KeyError)
      | _ \<Rightarrow> Inl TypeError)"

text \<open>A value that is an \<open>int\<close> or \<open>long\<close> (\<open>bool\<close> is an \<open>int\<close>), and a number.\<close>

definition int_of :: "pv \<Rightarrow> int option" where
  "int_of v =
     (case v of
        PBool b \<Rightarrow> Some (if b then 1 else 0)
      | PInt n \<Rightarrow> Some n
      | PInt64 n \<Rightarrow> Some n
      | _ \<Rightarrow> None)"

definition num_of :: "pv \<Rightarrow> rat option" where
  "num_of v =
     (case v of
        PFloat q \<Rightarrow> Some q
      | _ \<Rightarrow> map_option of_int (int_of v))"

text \<open>Sequencing: the second step runs on the value of the first unless the first raised.\<close>

definition andthen :: "exn + 'a \<Rightarrow> ('a \<Rightarrow> exn + 'b) \<Rightarrow> exn + 'b" where
  "andthen m f = (case m of Inl e \<Rightarrow> Inl e | Inr v \<Rightarrow> f v)"

fun mapM :: "('a \<Rightarrow> exn + 'b) \<Rightarrow> 'a list \<Rightarrow> exn + 'b list" where
  "mapM f [] = Inr []"
| "mapM f (x # xs) =
     (case f x of
        Inl e \<Rightarrow> Inl e
      | Inr y \<Rightarrow> (case mapM f xs of Inl e \<Rightarrow> Inl e | Inr ys \<Rightarrow> Inr (y # ys)))"

text \<open>\<open>dict(values)\<close>: a copy of a dictionary, or a dictionary from a sequence of pairs.\<close>

definition pair_of :: "pv \<Rightarrow> exn + (pykey \<times> pv)" where
  "pair_of e =
     (case py_iter e of
        Inl x \<Rightarrow> Inl x
      | Inr kv \<Rightarrow>
          (case kv of
             [k, v] \<Rightarrow> (case py_key k of None \<Rightarrow> Inl TypeError | Some key \<Rightarrow> Inr (key, v))
           | _ \<Rightarrow> Inl ValueError))"

definition py_dict :: "pv \<Rightarrow> exn + (pykey \<times> pv) list" where
  "py_dict values =
     (case values of
        PDict kvs \<Rightarrow> Inr (map (\<lambda>kv. (text_key (fst kv), snd kv)) kvs)
      | _ \<Rightarrow>
          (case py_iter values of
             Inl e \<Rightarrow> Inl e
           | Inr items \<Rightarrow>
               (case mapM pair_of items of
                  Inl e \<Rightarrow> Inl e
                | Inr kvs \<Rightarrow> Inr (foldl (\<lambda>d kv. AList.update (fst kv) (snd kv) d) [] kvs))))"

text \<open>\<open>sep.join(xs)\<close> on byte strings and text.\<close>

fun join_with :: "string \<Rightarrow> string list \<Rightarrow> string" where
  "join_with sep [] = []"
| "join_with sep [x] = x"
| "join_with sep (x # y # r) = x @ sep @ join_with sep (y # r)"

definition text_of :: "pv \<Rightarrow> string option" where
  "text_of v = (case v of PStr s \<Rightarrow> Some s | PUni s \<Rightarrow> Some s | _ \<Rightarrow> None)"

definition is_PStr :: "pv \<Rightarrow> bool" where
  "is_PStr v = (case v of PStr s \<Rightarrow> True | _ \<Rightarrow> False)"

definition py_join :: "string \<Rightarrow> pv list \<Rightarrow> exn + pv" where
  "py_join sep xs =
     (if list_all (\<lambda>x. text_of x \<noteq> None) xs then
        (if list_all is_PStr xs then Inr (PStr (join_with sep (map (\<lambda>x. the (text_of x)) xs)))
         else if list_all (\<lambda>x. if is_PStr x then ascii (the (text_of x)) else True) xs
         then Inr (PUni (join_with sep (map (\<lambda>x. the (text_of x)) xs)))
         else Inl UnicodeError)
      else Inl TypeError)"

text \<open>\<open>os.path.join(a, *p)\<close> of \<open>posixpath\<close>.\<close>

definition join2 :: "string \<Rightarrow> string \<Rightarrow> string" where
  "join2 path b =
     (if take 1 b = ''/'' then b
      else if path = [] \<or> last path = CHR ''/'' then path @ b
      else path @ ''/'' @ b)"

definition os_path_join :: "string \<Rightarrow> string list \<Rightarrow> string" where
  "os_path_join a p = foldl join2 a p"

subsection \<open>Converters\<close>

text \<open>\<open>"%x" % n\<close> for \<open>n \<ge> 0\<close>, and the zero padding of \<open>"%08x"\<close> and \<open>"%016x"\<close>.\<close>

definition hex_digit :: "nat \<Rightarrow> char" where
  "hex_digit d = ''0123456789abcdef'' ! d"

function hex_digits :: "nat \<Rightarrow> string" where
  "hex_digits n = (if n < 16 then [hex_digit n] else hex_digits (n div 16) @ [hex_digit (n mod 16)])"
  by pat_completeness auto
termination
  by (relation "measure id") auto

declare hex_digits.simps [simp del]

definition hex_pad :: "nat \<Rightarrow> nat \<Rightarrow> string" where
  "hex_pad w n = replicate (w - length (hex_digits n)) CHR ''0'' @ hex_digits n"

text \<open>
  \<open>pointer_converter\<close>. \<open>v % 2**32\<close> is the remainder on a number; on a float the
  \<open>%x\<close> format then truncates it. On a byte string or a text \<open>%\<close> is string formatting, and
  whatever it returns the \<open>%x\<close> format refuses; on \<open>None\<close>, a list, a dictionary or a
  datetime \<open>%\<close> itself is a \<open>TypeError\<close>. On a string some format texts raise another
  exception class than the \<open>TypeError\<close> given here.
\<close>

definition pointer_converter :: "pv \<Rightarrow> exn + pv" where
  "pointer_converter v =
     (case v of
        PInt64 n \<Rightarrow> Inr (PStr (''0x'' @ hex_pad 16 (nat (n mod 2 ^ 64))))
      | PInt n \<Rightarrow> Inr (PStr (''0x'' @ hex_pad 8 (nat (n mod 2 ^ 32))))
      | PBool b \<Rightarrow> Inr (PStr (''0x'' @ hex_pad 8 (if b then 1 else 0)))
      | PFloat q \<Rightarrow> Inr (PStr (''0x'' @ hex_pad 8 (nat \<lfloor>q - 2 ^ 32 * of_int \<lfloor>q / 2 ^ 32\<rfloor>\<rfloor>)))
      | _ \<Rightarrow> Inl TypeError)"

definition default_converter :: "pv \<Rightarrow> pv" where
  "default_converter v =
     (case v of
        PInt64 n \<Rightarrow> v
      | PInt n \<Rightarrow> (if n < 0 then PInt (n mod 2 ^ 32) else v)
      | PStr s \<Rightarrow> PUni s
      | _ \<Rightarrow> v)"

text \<open>The two converters a descriptor can hold: the entry \<open>"p"\<close> of \<open>TYPECONVERTERS\<close>, and the default.\<close>

datatype conv = PointerConv | DefaultConv

definition apply_conv :: "conv \<Rightarrow> pv \<Rightarrow> exn + pv" where
  "apply_conv c v = (case c of PointerConv \<Rightarrow> pointer_converter v | DefaultConv \<Rightarrow> Inr (default_converter v))"

definition argname_of :: "pv \<Rightarrow> exn + pv" where
  "argname_of i =
     (case i of
        PList xs \<Rightarrow> (case xs of [] \<Rightarrow> Inl IndexError | x # rest \<Rightarrow> Inr x)
      | _ \<Rightarrow> Inr i)"

definition converter_of :: "pv \<Rightarrow> exn + conv" where
  "converter_of i =
     (case i of
        PList xs \<Rightarrow>
          (case xs of
             x # t # rest \<Rightarrow>
               (case py_key t of
                  None \<Rightarrow> Inl TypeError
                | Some k \<Rightarrow>
                    if k = KText ''p'' then Inr PointerConv
                    else if format_ok t then Inr DefaultConv
                    else Inl UnicodeError)
           | _ \<Rightarrow> Inl IndexError)
      | _ \<Rightarrow> Inr DefaultConv)"

definition check_names_for_typeinfo :: "pv \<Rightarrow> exn + (pv list \<times> conv list)" where
  "check_names_for_typeinfo arginfo =
     (case py_iter arginfo of
        Inl e \<Rightarrow> Inl e
      | Inr items \<Rightarrow>
          (case mapM argname_of items of
             Inl e \<Rightarrow> Inl e
           | Inr argnames \<Rightarrow>
               (case mapM converter_of items of
                  Inl e \<Rightarrow> Inl e
                | Inr converters \<Rightarrow> Inr (argnames, converters))))"

subsection \<open>\<open>BsonParser\<close>\<close>

text \<open>
  What the receiver takes from outside the sources: the BSON decoder (\<open>None\<close> when it
  raises), \<open>hashlib.sha1(b).hexdigest()\<close>, \<open>int(s, 16)\<close>, \<open>datetime.datetime.fromtimestamp\<close>
  and \<open>get_filename_from_path\<close> of \<open>lib.cuckoo.common.utils\<close>.
\<close>

record receiver_env =
  bson_decode :: "string \<Rightarrow> doc option"
  sha1_hexdigest :: "string \<Rightarrow> string"
  int16 :: "string \<Rightarrow> exn + int"
  fromtimestamp :: "rat \<Rightarrow> exn + pv"
  get_filename_from_path :: "pv \<Rightarrow> exn + pv"

text \<open>A descriptor: \<open>name, arginfo, argnames, converters, category\<close>.\<close>

type_synonym descr = "pv \<times> pv \<times> pv list \<times> conv list \<times> pv"

type_synonym argdict = "(pykey \<times> pv) list"

text \<open>
  The parser object. Its dictionaries are association lists in insertion order.
  \<open>storagepath\<close> is \<open>Some\<close> of the storage path when \<open>fd\<close> is a \<open>ResultHandler\<close> of the result
  server and \<open>None\<close> for any other stream; \<open>written\<close> lists the buffer files written so far,
  each with its path and content (the write itself is taken to succeed).
\<close>

record BsonParser =
  infomap :: "(pykey \<times> descr) list"
  flags_value :: "(pykey \<times> (pykey \<times> argdict) list) list"
  flags_bitmask :: "(pykey \<times> (pykey \<times> pv) list) list"
  pid :: pv
  storagepath :: "string option"
  written :: "(string \<times> string) list"

definition BsonParser_init :: "string option \<Rightarrow> BsonParser" where
  "BsonParser_init sp =
     \<lparr>infomap = [], flags_value = [], flags_bitmask = [], pid = PNone, storagepath = sp, written = []\<rparr>"

text \<open>
  The integer value of an argument in \<open>resolve_flags\<close>: \<open>int(v, 16)\<close> when \<open>v\<close> is a byte
  string, \<open>v\<close> itself otherwise.
\<close>

definition flag_value :: "receiver_env \<Rightarrow> pv \<Rightarrow> exn + pv" where
  "flag_value env v =
     (case v of
        PStr s \<Rightarrow> (case int16 env s of Inl e \<Rightarrow> Inl e | Inr n \<Rightarrow> Inr (PInt n))
      | _ \<Rightarrow> Inr v)"

text \<open>The first loop of \<open>resolve_flags\<close>, over \<open>self.flags_value[apiname].items()\<close>.\<close>

fun resolve_values ::
  "receiver_env \<Rightarrow> argdict \<Rightarrow> (pykey \<times> argdict) list \<Rightarrow> argdict \<Rightarrow> exn + argdict"
where
  "resolve_values env argd [] flags = Inr flags"
| "resolve_values env argd ((argument, values) # rest) flags =
     (case map_of argd argument of
        None \<Rightarrow> Inl KeyError
      | Some a \<Rightarrow>
          (case flag_value env a of
             Inl e \<Rightarrow> Inl e
           | Inr value \<Rightarrow>
               (case py_key value of
                  None \<Rightarrow> Inl TypeError
                | Some k \<Rightarrow>
                    (case map_of values k of
                       None \<Rightarrow> resolve_values env argd rest flags
                     | Some symbol \<Rightarrow> resolve_values env argd rest (AList.update argument symbol flags)))))"

text \<open>
  The inner loop \<open>for key, flag in values\<close> of the second part: the flags whose mask is
  contained in the value.
\<close>

fun bitmask_flags :: "pv \<Rightarrow> pv list \<Rightarrow> pv list \<Rightarrow> exn + pv list" where
  "bitmask_flags value [] acc = Inr acc"
| "bitmask_flags value (e # rest) acc =
     (case py_iter e of
        Inl x \<Rightarrow> Inl x
      | Inr kf \<Rightarrow>
          (case kf of
             [key, flag] \<Rightarrow>
               (case (int_of value, int_of key) of
                  (Some v, Some k) \<Rightarrow>
                    bitmask_flags value rest (if and v k = k then acc @ [flag] else acc)
                | _ \<Rightarrow> Inl TypeError)
           | _ \<Rightarrow> Inl ValueError))"

text \<open>The second loop, over \<open>self.flags_bitmask[apiname].items()\<close>.\<close>

fun resolve_bitmasks ::
  "receiver_env \<Rightarrow> argdict \<Rightarrow> (pykey \<times> pv) list \<Rightarrow> argdict \<Rightarrow> exn + argdict"
where
  "resolve_bitmasks env argd [] flags = Inr flags"
| "resolve_bitmasks env argd ((argument, values) # rest) flags =
     (if map_of flags argument \<noteq> None then resolve_bitmasks env argd rest flags
      else
        (case map_of argd argument of
           None \<Rightarrow> Inl KeyError
         | Some a \<Rightarrow>
             (case flag_value env a of
                Inl e \<Rightarrow> Inl e
              | Inr value \<Rightarrow>
                  (case py_iter values of
                     Inl e \<Rightarrow> Inl e
                   | Inr items \<Rightarrow>
                       (case bitmask_flags value items [] of
                          Inl e \<Rightarrow> Inl e
                        | Inr syms \<Rightarrow>
                            (case py_join ''|'' syms of
                               Inl e \<Rightarrow> Inl e
                             | Inr joined \<Rightarrow>
                                 resolve_bitmasks env argd rest
                                   (AList.update argument joined flags)))))))"

text \<open>
  \<open>resolve_flags\<close>: the flags dictionary filled, or the exception raised.
  \<open>self.flags_value[apiname]\<close> and \<open>self.flags_bitmask[apiname]\<close> are plain subscripts, a
  \<open>KeyError\<close> when the name has no entry.
\<close>

definition resolve_flags ::
  "receiver_env \<Rightarrow> BsonParser \<Rightarrow> pykey \<Rightarrow> argdict \<Rightarrow> argdict \<Rightarrow> exn + argdict"
where
  "resolve_flags env st apiname argd flags =
     (case map_of (flags_value st) apiname of
        None \<Rightarrow> Inl KeyError
      | Some vtab \<Rightarrow>
          (case resolve_values env argd vtab flags of
             Inl e \<Rightarrow> Inl e
           | Inr flags1 \<Rightarrow>
               (case map_of (flags_bitmask st) apiname of
                  None \<Rightarrow> Inl KeyError
                | Some btab \<Rightarrow> resolve_bitmasks env argd btab flags1)))"

text \<open>
  The record \<open>parsed\<close> that \<open>__iter__\<close> yields. A key the code does not set is \<open>None\<close>; the
  Python value \<open>None\<close> under a key is \<open>Some PNone\<close>.
\<close>

record parsed =
  r_type :: pv
  r_tid :: pv
  r_time :: pv
  r_message :: "pv option"
  r_pid :: "pv option"
  r_ppid :: "pv option"
  r_first_seen :: "pv option"
  r_process_name :: "pv option"
  r_api :: "pv option"
  r_category :: "pv option"
  r_status :: "pv option"
  r_return_value :: "pv option"
  r_arguments :: "argdict option"
  r_flags :: "argdict option"
  r_stacktrace :: "pv option"
  r_uniqhash :: "pv option"
  r_last_error :: "pv option"
  r_nt_status :: "pv option"

definition parsed_init :: "pv \<Rightarrow> pv \<Rightarrow> pv \<Rightarrow> parsed" where
  "parsed_init mtype tid' time' =
     \<lparr>r_type = mtype, r_tid = tid', r_time = time', r_message = None, r_pid = None, r_ppid = None,
      r_first_seen = None, r_process_name = None, r_api = None, r_category = None,
      r_status = None, r_return_value = None, r_arguments = None, r_flags = None,
      r_stacktrace = None, r_uniqhash = None, r_last_error = None, r_nt_status = None\<rparr>"

text \<open>What one turn of the loop does after decoding: go on, yield a record, or raise.\<close>

datatype step = Continue | Yield parsed | Raise exn

text \<open>The argument dictionary: names zipped with converted values.\<close>

fun build_argdict :: "pv list \<Rightarrow> conv list \<Rightarrow> pv list \<Rightarrow> argdict \<Rightarrow> exn + argdict" where
  "build_argdict (n # ns) (c # cs) (a # as) acc =
     (case apply_conv c a of
        Inl e \<Rightarrow> Inl e
      | Inr v \<Rightarrow>
          (case py_key n of
             None \<Rightarrow> Inl TypeError
           | Some k \<Rightarrow> build_argdict ns cs as (AList.update k v acc)))"
| "build_argdict ns cs as acc = Inr acc"

text \<open>\<open>argdict[k]\<close> for a literal key, a \<open>KeyError\<close> when it is missing.\<close>

definition get_arg :: "argdict \<Rightarrow> string \<Rightarrow> exn + pv" where
  "get_arg argd k = (case map_of argd (KText k) of None \<Rightarrow> Inl KeyError | Some v \<Rightarrow> Inr v)"

definition has_arg :: "argdict \<Rightarrow> string \<Rightarrow> bool" where
  "has_arg argd k = (map_of argd (KText k) \<noteq> None)"

text \<open>
  \<open>(timelow + (timehigh << 32)) / 10000000.0 - 11644473600\<close>: the shift needs an integer,
  the sum a number.
\<close>

definition filetime :: "pv \<Rightarrow> pv \<Rightarrow> exn + rat" where
  "filetime timelow timehigh =
     (case int_of timehigh of
        None \<Rightarrow> Inl TypeError
      | Some high \<Rightarrow>
          (case num_of timelow of
             None \<Rightarrow> Inl TypeError
           | Some low \<Rightarrow> Inr ((low + of_int (high * 2 ^ 32)) / 10000000 - 11644473600)))"

text \<open>
  The three layouts of a \<open>__process__\<close> message, lines 252 to 290: \<open>pid\<close>, \<open>ppid\<close>,
  \<open>vmtimeunix\<close> and \<open>modulepath\<close>, or the exception raised. The steps of each branch keep
  the order of the code.
\<close>

definition process_fields :: "receiver_env \<Rightarrow> argdict \<Rightarrow> exn + (pv \<times> pv \<times> rat \<times> pv)" where
  "process_fields env argd =
     (if has_arg argd ''TimeLow'' then
        andthen (get_arg argd ''TimeLow'') (\<lambda>timelow.
        andthen (get_arg argd ''TimeHigh'') (\<lambda>timehigh.
        andthen (get_arg argd ''ProcessIdentifier'') (\<lambda>p.
        andthen (get_arg argd ''ParentProcessIdentifier'') (\<lambda>pp.
        andthen (get_arg argd ''ModulePath'') (\<lambda>modulepath.
        andthen (filetime timelow timehigh) (\<lambda>vmtimeunix.
          Inr (p, pp, vmtimeunix, modulepath)))))))
      else if has_arg argd ''time_low'' then
        andthen (get_arg argd ''time_low'') (\<lambda>timelow.
        andthen (get_arg argd ''time_high'') (\<lambda>timehigh.
        andthen
          (if has_arg argd ''pid'' then
             andthen (get_arg argd ''pid'') (\<lambda>p.
             andthen (get_arg argd ''ppid'') (\<lambda>pp. Inr (p, pp)))
           else
             andthen (get_arg argd ''process_identifier'') (\<lambda>p.
             andthen (get_arg argd ''parent_process_identifier'') (\<lambda>pp. Inr (p, pp))))
          (\<lambda>ids.
        andthen (get_arg argd ''module_path'') (\<lambda>modulepath.
        andthen (filetime timelow timehigh) (\<lambda>vmtimeunix.
          Inr (fst ids, snd ids, vmtimeunix, modulepath))))))
      else if has_arg argd ''TimeStamp'' then
        andthen (get_arg argd ''TimeStamp'') (\<lambda>ts.
        andthen (case num_of ts of None \<Rightarrow> Inl TypeError | Some q \<Rightarrow> Inr (q / 1000)) (\<lambda>vmtimeunix.
        andthen (fromtimestamp env vmtimeunix) (\<lambda>vmtime.
        andthen (get_arg argd ''ProcessIdentifier'') (\<lambda>p.
        andthen (get_arg argd ''ParentProcessIdentifier'') (\<lambda>pp.
        andthen (get_arg argd ''ModulePath'') (\<lambda>modulepath.
          Inr (p, pp, vmtimeunix, modulepath)))))))
      else Inl CuckooResultError)"

text \<open>
  An \<open>info\<close> message, lines 173 to 191. The two optional tables are stored under the
  name; a table that is not a dictionary has no \<open>items\<close> (\<open>AttributeError\<close>).
\<close>

fun fill_values :: "(string \<times> pv) list \<Rightarrow> (pykey \<times> argdict) list \<Rightarrow> exn option \<times> (pykey \<times> argdict) list" where
  "fill_values [] tab = (None, tab)"
| "fill_values ((a, values) # rest) tab =
     (case py_dict values of
        Inl e \<Rightarrow> (Some e, tab)
      | Inr d \<Rightarrow> fill_values rest (AList.update (text_key a) d tab))"

definition register_flags_value :: "BsonParser \<Rightarrow> pv \<Rightarrow> doc \<Rightarrow> exn option \<times> BsonParser" where
  "register_flags_value st name dec =
     (if py_truthy (dget dec ''flags_value'' PNone) then
        (case py_key name of
           None \<Rightarrow> (Some TypeError, st)
         | Some nk \<Rightarrow>
             (case dget dec ''flags_value'' PNone of
                PDict kvs \<Rightarrow>
                  (fst (fill_values kvs []),
                   st\<lparr>flags_value := AList.update nk (snd (fill_values kvs [])) (flags_value st)\<rparr>)
              | _ \<Rightarrow> (Some AttributeError, st\<lparr>flags_value := AList.update nk [] (flags_value st)\<rparr>)))
      else (None, st))"

definition register_flags_bitmask :: "BsonParser \<Rightarrow> pv \<Rightarrow> doc \<Rightarrow> exn option \<times> BsonParser" where
  "register_flags_bitmask st name dec =
     (if py_truthy (dget dec ''flags_bitmask'' PNone) then
        (case py_key name of
           None \<Rightarrow> (Some TypeError, st)
         | Some nk \<Rightarrow>
             (case dget dec ''flags_bitmask'' PNone of
                PDict kvs \<Rightarrow>
                  (None,
                   st\<lparr>flags_bitmask :=
                        AList.update nk
                          (foldl (\<lambda>tab kv. AList.update (text_key (fst kv)) (snd kv) tab) [] kvs)
                          (flags_bitmask st)\<rparr>)
              | _ \<Rightarrow> (Some AttributeError, st\<lparr>flags_bitmask := AList.update nk [] (flags_bitmask st)\<rparr>)))
      else (None, st))"

definition handle_info :: "BsonParser \<Rightarrow> doc \<Rightarrow> pv \<Rightarrow> step \<times> BsonParser" where
  "handle_info st dec index =
     (let name = dget dec ''name'' (PStr ''NONAME'');
          arginfo = dget dec ''args'' (PList []);
          category = dget dec ''category'' PNone
      in case check_names_for_typeinfo arginfo of
           Inl e \<Rightarrow> (Raise e, st)
         | Inr names \<Rightarrow>
             (case py_key index of
                None \<Rightarrow> (Raise TypeError, st)
              | Some ik \<Rightarrow>
                  (let st1 = st\<lparr>infomap :=
                                 AList.update ik (name, arginfo, fst names, snd names, category)
                                   (infomap st)\<rparr>
                   in case register_flags_value st1 name dec of
                        (Some e, st2) \<Rightarrow> (Raise e, st2)
                      | (None, st2) \<Rightarrow>
                          (case register_flags_bitmask st2 name dec of
                             (Some e, st3) \<Rightarrow> (Raise e, st3)
                           | (None, st3) \<Rightarrow> (Continue, st3)))))"

text \<open>
  A \<open>buffer\<close> message, lines 194 to 214. \<open>hashlib.sha1\<close> takes bytes: a text is encoded
  as ASCII when it can be, anything else is a \<open>TypeError\<close>. The file is written only when
  the stream is the result server's \<open>ResultHandler\<close>.
\<close>

definition buffer_bytes :: "pv \<Rightarrow> exn + string" where
  "buffer_bytes buf =
     (case buf of
        PStr s \<Rightarrow> Inr s
      | PUni s \<Rightarrow> (if ascii s then Inr s else Inl UnicodeError)
      | _ \<Rightarrow> Inl TypeError)"

definition handle_buffer :: "receiver_env \<Rightarrow> BsonParser \<Rightarrow> doc \<Rightarrow> step \<times> BsonParser" where
  "handle_buffer env st dec =
     (let buf = dget dec ''buffer'' PNone;
          sha1 = dget dec ''checksum'' PNone
      in case buffer_bytes buf of
           Inl e \<Rightarrow> (Raise e, st)
         | Inr bytes \<Rightarrow>
             if \<not> py_eq_str sha1 (sha1_hexdigest env bytes) then (Continue, st)
             else
               (case storagepath st of
                  None \<Rightarrow> (Continue, st)
                | Some sp \<Rightarrow>
                    (Continue,
                     st\<lparr>written := written st @
                          [(os_path_join sp [''buffer'', sha1_hexdigest env bytes], bytes)]\<rparr>)))"

text \<open>A \<open>__process__\<close> message, lines 249 to 298.\<close>

definition handle_process :: "receiver_env \<Rightarrow> BsonParser \<Rightarrow> parsed \<Rightarrow> argdict \<Rightarrow> step \<times> BsonParser" where
  "handle_process env st parsed0 argd =
     (case process_fields env argd of
        Inl e \<Rightarrow> (Raise e, st)
      | Inr f \<Rightarrow>
          (case fromtimestamp env (fst (snd (snd f))) of
             Inl e \<Rightarrow> (Raise e, st)
           | Inr vmtime \<Rightarrow>
               (case get_filename_from_path env (snd (snd (snd f))) of
                  Inl e \<Rightarrow> (Raise e, st)
                | Inr procname \<Rightarrow>
                    (Yield (parsed0\<lparr>r_type := PStr ''process'', r_pid := Some (fst f),
                                    r_ppid := Some (fst (snd f)), r_first_seen := Some vmtime,
                                    r_process_name := Some procname\<rparr>),
                     st\<lparr>pid := fst f\<rparr>))))"

text \<open>A \<open>__thread__\<close> message, lines 300 and 301.\<close>

definition handle_thread :: "BsonParser \<Rightarrow> parsed \<Rightarrow> argdict \<Rightarrow> step \<times> BsonParser" where
  "handle_thread st parsed0 argd =
     (case get_arg argd ''ProcessIdentifier'' of
        Inl e \<Rightarrow> (Raise e, st)
      | Inr p \<Rightarrow> (Yield (parsed0\<lparr>r_pid := Some p\<rparr>), st))"

text \<open>Any other call, lines 310 to 328.\<close>

definition apicall_record :: "BsonParser \<Rightarrow> doc \<Rightarrow> parsed \<Rightarrow> pv \<Rightarrow> pv \<Rightarrow> argdict \<Rightarrow> parsed" where
  "apicall_record st dec parsed0 apiname category argd =
     (let parsed1 =
            parsed0\<lparr>r_type := PStr ''apicall'',
                    r_pid := Some (pid st),
                    r_api := Some apiname,
                    r_category := Some category,
                    r_status := Some (case map_of argd (KText ''is_success'') of None \<Rightarrow> PInt 1 | Some v \<Rightarrow> v),
                    r_return_value := Some (case map_of argd (KText ''retval'') of None \<Rightarrow> PInt 0 | Some v \<Rightarrow> v),
                    r_arguments := Some (AList.delete (KText ''retval'') (AList.delete (KText ''is_success'') argd)),
                    r_flags := Some [],
                    r_stacktrace := Some (dget dec ''s'' (PList [])),
                    r_uniqhash := Some (dget dec ''h'' (PInt 0))\<rparr>
      in if dhas dec ''e'' \<and> dhas dec ''E''
         then parsed1\<lparr>r_last_error := map_of dec ''e'', r_nt_status := map_of dec ''E''\<rparr>
         else parsed1)"

definition handle_apicall ::
  "receiver_env \<Rightarrow> BsonParser \<Rightarrow> doc \<Rightarrow> parsed \<Rightarrow> pv \<Rightarrow> pv \<Rightarrow> argdict \<Rightarrow> step \<times> BsonParser"
where
  "handle_apicall env st dec parsed0 apiname category argd =
     (let parsed2 = apicall_record st dec parsed0 apiname category argd
      in case py_key apiname of
           None \<Rightarrow> (Raise TypeError, st)
         | Some ak \<Rightarrow>
             if map_of (flags_value st) ak \<noteq> None then
               (case resolve_flags env st ak (the (r_arguments parsed2)) [] of
                  Inl e \<Rightarrow> (Raise e, st)
                | Inr fl \<Rightarrow> (Yield (parsed2\<lparr>r_flags := Some fl\<rparr>), st))
             else (Yield parsed2, st))"

text \<open>Lines 245 and 246: \<open>args[i]\<close> for each position, converted and stored under its name.\<close>

definition frame_argdict :: "pv list \<Rightarrow> conv list \<Rightarrow> pv \<Rightarrow> exn + argdict" where
  "frame_argdict argnames converters args =
     andthen (py_elems args) (\<lambda>vals. build_argdict argnames converters vals [])"

text \<open>A message that is neither \<open>info\<close>, \<open>buffer\<close> nor \<open>debug\<close>, lines 230 to 328.\<close>

definition handle_call :: "receiver_env \<Rightarrow> BsonParser \<Rightarrow> doc \<Rightarrow> pv \<Rightarrow> parsed \<Rightarrow> step \<times> BsonParser" where
  "handle_call env st dec index parsed0 =
     (case py_key index of
        None \<Rightarrow> (Raise TypeError, st)
      | Some ik \<Rightarrow>
          (case map_of (infomap st) ik of
             None \<Rightarrow> (Continue, st)
           | Some d \<Rightarrow>
               (let apiname = fst d;
                    argnames = fst (snd (snd d));
                    converters = fst (snd (snd (snd d)));
                    category = snd (snd (snd (snd d)));
                    args = dget dec ''args'' (PList [])
                in case py_len args of
                     None \<Rightarrow> (Raise TypeError, st)
                   | Some n \<Rightarrow>
                       if n \<noteq> length argnames then
                         (if format_ok apiname then (Continue, st) else (Raise UnicodeError, st))
                       else
                         (case frame_argdict argnames converters args of
                            Inl e \<Rightarrow> (Raise e, st)
                          | Inr argd \<Rightarrow>
                              if py_eq_str apiname ''__process__'' then handle_process env st parsed0 argd
                              else if py_eq_str apiname ''__thread__'' then handle_thread st parsed0 argd
                              else handle_apicall env st dec parsed0 apiname category argd))))"

text \<open>
  The body of the loop from line 170 on, for one decoded message \<open>dec\<close>: what the turn
  does, and the parser after it.
\<close>

definition handle :: "receiver_env \<Rightarrow> BsonParser \<Rightarrow> doc \<Rightarrow> step \<times> BsonParser" where
  "handle env st dec =
     (let mtype = dget dec ''type'' (PStr ''none'');
          index = dget dec ''I'' (PInt (- 1))
      in if py_eq_str mtype ''info'' then handle_info st dec index
         else if py_eq_str mtype ''buffer'' then handle_buffer env st dec
         else
           (let parsed0 = parsed_init mtype (dget dec ''T'' (PInt 0)) (dget dec ''t'' (PInt 0))
            in if py_eq_str mtype ''debug'' then
                 (if format_ok (dget dec ''msg'' (PStr ''''))
                  then (Yield (parsed0\<lparr>r_message := Some (dget dec ''msg'' (PStr ''''))\<rparr>), st)
                  else (Raise UnicodeError, st))
               else handle_call env st dec index parsed0))"

text \<open>
  The messages that reach line 230: the type is none of \<open>info\<close>, \<open>buffer\<close>, \<open>debug\<close>.
\<close>

definition data_frame :: "doc \<Rightarrow> bool" where
  "data_frame dec =
     (\<not> py_eq_str (dget dec ''type'' (PStr ''none'')) ''info''
      \<and> \<not> py_eq_str (dget dec ''type'' (PStr ''none'')) ''buffer''
      \<and> \<not> py_eq_str (dget dec ''type'' (PStr ''none'')) ''debug'')"

text \<open>
  The fields a data message is read through: \<open>dec.get("I", -1)\<close>, \<open>dec.get("args", [])\<close>,
  and the record \<open>parsed\<close> as line 219 builds it.
\<close>

definition msg_index :: "doc \<Rightarrow> pv" where
  "msg_index dec = dget dec ''I'' (PInt (- 1))"

definition msg_args :: "doc \<Rightarrow> pv" where
  "msg_args dec = dget dec ''args'' (PList [])"

definition msg_parsed :: "doc \<Rightarrow> parsed" where
  "msg_parsed dec =
     parsed_init (dget dec ''type'' (PStr ''none'')) (dget dec ''T'' (PInt 0)) (dget dec ''t'' (PInt 0))"

text \<open>
  A data message that reaches line 248: its index is in \<open>infomap\<close> with descriptor \<open>d\<close>, it
  carries as many values as the descriptor has names, and the values convert to the
  argument dictionary \<open>argd\<close>.
\<close>

definition call_frame :: "BsonParser \<Rightarrow> doc \<Rightarrow> descr \<Rightarrow> argdict \<Rightarrow> bool" where
  "call_frame st dec d argd =
     (data_frame dec
      \<and> (case py_key (msg_index dec) of None \<Rightarrow> False | Some ik \<Rightarrow> map_of (infomap st) ik = Some d)
      \<and> py_len (msg_args dec) = Some (length (fst (snd (snd d))))
      \<and> frame_argdict (fst (snd (snd d))) (fst (snd (snd (snd d)))) (msg_args dec) = Inr argd)"

text \<open>
  Stated for the comparison of the two FILETIME layouts: what a \<open>__process__\<close> message
  comes to once its five values are read, whichever names they were read under. The
  timestamp is computed, made a \<open>datetime\<close>, the file name is cut from the module path, and
  either one of the three raises or the record is yielded and the parser's \<open>pid\<close> set.
\<close>

definition process_outcome ::
  "receiver_env \<Rightarrow> BsonParser \<Rightarrow> parsed \<Rightarrow> pv \<Rightarrow> pv \<Rightarrow> pv \<Rightarrow> pv \<Rightarrow> pv \<Rightarrow> step \<times> BsonParser"
where
  "process_outcome env st parsed0 timelow timehigh p pp modulepath =
     (case andthen (filetime timelow timehigh) (\<lambda>t.
           andthen (fromtimestamp env t) (\<lambda>vmtime.
           andthen (get_filename_from_path env modulepath) (\<lambda>procname. Inr (vmtime, procname)))) of
        Inl e \<Rightarrow> (Raise e, st)
      | Inr v \<Rightarrow>
          (Yield (parsed0\<lparr>r_type := PStr ''process'', r_pid := Some p, r_ppid := Some pp,
                          r_first_seen := Some (fst v), r_process_name := Some (snd v)\<rparr>),
           st\<lparr>pid := p\<rparr>))"

text \<open>How the iteration ends: the generator returns, or an exception reaches the caller.\<close>

datatype ending = Stopped stop | Raised exn

text \<open>
  \<open>BsonParser.__iter__\<close> on the bytes of the stream from position 0: the records yielded
  in order, how the iteration ended, and the parser at that point.
\<close>

function iter :: "receiver_env \<Rightarrow> BsonParser \<Rightarrow> string \<Rightarrow> parsed list \<times> ending \<times> BsonParser" where
  "iter env st fd =
     (case read_frame fd of
        Inl r \<Rightarrow> ([], Stopped r, st)
      | Inr frame \<Rightarrow>
          (case bson_decode env (fst frame) of
             None \<Rightarrow> ([], Stopped DecodingProblem, st)
           | Some dec \<Rightarrow>
               (case fst (handle env st dec) of
                  Continue \<Rightarrow> iter env (snd (handle env st dec)) (snd frame)
                | Yield p \<Rightarrow>
                    (p # fst (iter env (snd (handle env st dec)) (snd frame)),
                     snd (iter env (snd (handle env st dec)) (snd frame)))
                | Raise e \<Rightarrow> ([], Raised e, snd (handle env st dec)))))"
  by pat_completeness auto
termination
proof (relation "measure (\<lambda>(env, st, fd). length fd)")
  show "wf (measure (\<lambda>(env, st, fd). length fd))" by simp
next
  fix env :: receiver_env and st :: BsonParser and fd :: string and frame
  assume "read_frame fd = Inr frame"
  then have "length (snd frame) < length fd"
    by (auto simp: read_frame_def fd_read_def Let_def split: if_splits)
  then show "((env, snd (handle env st dec), snd frame), (env, st, fd))
               \<in> measure (\<lambda>(env, st, fd). length fd)" for dec by simp
  then show "((env, snd (handle env st dec), snd frame), (env, st, fd))
               \<in> measure (\<lambda>(env, st, fd). length fd)" for dec by simp
  then show "((env, snd (handle env st dec), snd frame), (env, st, fd))
               \<in> measure (\<lambda>(env, st, fd). length fd)" for dec by simp
qed

declare iter.simps [simp del]

section \<open>Environments for the worked examples\<close>

text \<open>
  The examples below run the definitions on concrete input. They need the outside functions
  only at a handful of arguments, so each is given there and nowhere else: a list of
  socket syscall names stands for the set of \<open>ptrace.syscall\<close>, \<open>unicode\<close> is given on
  strings and \<open>long\<close> on integers, the encoder output is a placeholder (no example reads
  it back), the decoder is a finite table from frame bytes to documents, the only digest
  used is the SHA-1 of the empty byte string, a \<open>datetime\<close> is its timestamp, and the file
  name of a path is taken only of names without a directory part.
\<close>

definition example_sender :: sender_env where
  "example_sender =
     \<lparr>SOCKET_SYSCALL_NAMES =
        [''socket'', ''socketpair'', ''connect'', ''sendto'', ''recvfrom'', ''sendmsg'', ''recvmsg'',
         ''bind'', ''listen'', ''accept'', ''getsockname'', ''getpeername'', ''getsockopt'',
         ''setsockopt'', ''shutdown''],
      bson_encode = (\<lambda>d. Inr ''?''),
      unicode = (\<lambda>v. case v of
                       PStr s \<Rightarrow> (if ascii s then Inr (PUni s) else Inl UnicodeError)
                     | PUni s \<Rightarrow> Inr (PUni s)
                     | _ \<Rightarrow> Inl TypeError),
      long = (\<lambda>v. case v of PInt n \<Rightarrow> Inr (PInt n) | _ \<Rightarrow> Inl TypeError)\<rparr>"

definition sha1_empty :: string where
  "sha1_empty = ''da39a3ee5e6b4b0d3255bfef95601890afd80709''"

definition example_receiver :: "(string \<times> doc) list \<Rightarrow> receiver_env" where
  "example_receiver table =
     \<lparr>bson_decode = map_of table,
      sha1_hexdigest = (\<lambda>b. if b = [] then sha1_empty else []),
      int16 = (\<lambda>s. Inl ValueError),
      fromtimestamp = (\<lambda>t. Inr (PDatetime t)),
      get_filename_from_path = (\<lambda>p. Inr p)\<rparr>"

text \<open>
  A logger after \<open>log_init\<close> at time 0, on a transport that takes every buffer whole, and
  three calls: two for index 5 and one for index 600, which the table does not have.
\<close>

definition example_logger :: ResultLogger where
  "example_logger = (ResultLogger_init \<lparr>wire = [], plan = []\<rparr>)\<lparr>start := Some 0\<rparr>"

definition example_calls :: "emit list" where
  "example_calls =
     [Loq 1 5 ''open'' (PInt 1) (PInt 3) ''u'' [PStr ''filename'', PStr ''/etc/passwd''],
      Loq 2 5 ''open'' (PInt 1) (PInt 4) ''u'' [PStr ''filename'', PStr ''/etc/hosts''],
      Loq 3 600 ''getpid'' (PInt 1) (PInt 42) [] []]"

text \<open>
  Documents of the examples, each with its BSON encoding (a little-endian length that
  counts itself, the elements, a closing zero byte). Strings decode to text, as the
  decoder of \<open>pymongo\<close> does under Python 2.
\<close>

text \<open>An \<open>info\<close> message that describes index 0 as \<open>__process__\<close>, with no argument names, 49 bytes.\<close>

definition process_info_doc :: doc where
  "process_info_doc =
     [(''type'', PUni ''info''),
      (''I'', PInt 0),
      (''name'', PUni ''__process__'')]"

definition process_info_bytes :: string where
  "process_info_bytes =
     [CHR 0x31, CHR 0x00, CHR 0x00, CHR 0x00, CHR 0x02, CHR 0x74, CHR 0x79, CHR 0x70, CHR 0x65,
      CHR 0x00, CHR 0x05, CHR 0x00, CHR 0x00, CHR 0x00, CHR 0x69, CHR 0x6e, CHR 0x66, CHR 0x6f,
      CHR 0x00, CHR 0x10, CHR 0x49, CHR 0x00, CHR 0x00, CHR 0x00, CHR 0x00, CHR 0x00, CHR 0x02,
      CHR 0x6e, CHR 0x61, CHR 0x6d, CHR 0x65, CHR 0x00, CHR 0x0c, CHR 0x00, CHR 0x00, CHR 0x00,
      CHR 0x5f, CHR 0x5f, CHR 0x70, CHR 0x72, CHR 0x6f, CHR 0x63, CHR 0x65, CHR 0x73, CHR 0x73,
      CHR 0x5f, CHR 0x5f, CHR 0x00, CHR 0x00]"

text \<open>A data message for index 0 with no values, 12 bytes.\<close>

definition index0_data_doc :: doc where
  "index0_data_doc =
     [(''I'', PInt 0)]"

definition index0_data_bytes :: string where
  "index0_data_bytes =
     [CHR 0x0c, CHR 0x00, CHR 0x00, CHR 0x00, CHR 0x10, CHR 0x49, CHR 0x00, CHR 0x00, CHR 0x00,
      CHR 0x00, CHR 0x00, CHR 0x00]"

text \<open>A data message for index 7 with no values, 12 bytes.\<close>

definition index7_data_doc :: doc where
  "index7_data_doc =
     [(''I'', PInt 7)]"

definition index7_data_bytes :: string where
  "index7_data_bytes =
     [CHR 0x0c, CHR 0x00, CHR 0x00, CHR 0x00, CHR 0x10, CHR 0x49, CHR 0x00, CHR 0x07, CHR 0x00,
      CHR 0x00, CHR 0x00, CHR 0x00]"

text \<open>A \<open>debug\<close> message, 33 bytes.\<close>

definition debug_msg_doc :: doc where
  "debug_msg_doc =
     [(''type'', PUni ''debug''),
      (''msg'', PUni ''hi'')]"

definition debug_msg_bytes :: string where
  "debug_msg_bytes =
     [CHR 0x21, CHR 0x00, CHR 0x00, CHR 0x00, CHR 0x02, CHR 0x74, CHR 0x79, CHR 0x70, CHR 0x65,
      CHR 0x00, CHR 0x06, CHR 0x00, CHR 0x00, CHR 0x00, CHR 0x64, CHR 0x65, CHR 0x62, CHR 0x75,
      CHR 0x67, CHR 0x00, CHR 0x02, CHR 0x6d, CHR 0x73, CHR 0x67, CHR 0x00, CHR 0x03, CHR 0x00,
      CHR 0x00, CHR 0x00, CHR 0x68, CHR 0x69, CHR 0x00, CHR 0x00]"

text \<open>The \<open>info\<close> message of the scenario of section 8 of the specification, 135 bytes.\<close>

definition createfile_info_doc :: doc where
  "createfile_info_doc =
     [(''type'', PUni ''info''),
      (''I'', PInt 5),
      (''name'', PUni ''CreateFileW''),
      (''category'', PUni ''filesystem''),
      (''args'', PList [PUni ''is_success'', PUni ''retval'', PUni ''lpFileName''])]"

definition createfile_info_bytes :: string where
  "createfile_info_bytes =
     [CHR 0x87, CHR 0x00, CHR 0x00, CHR 0x00, CHR 0x02, CHR 0x74, CHR 0x79, CHR 0x70, CHR 0x65,
      CHR 0x00, CHR 0x05, CHR 0x00, CHR 0x00, CHR 0x00, CHR 0x69, CHR 0x6e, CHR 0x66, CHR 0x6f,
      CHR 0x00, CHR 0x10, CHR 0x49, CHR 0x00, CHR 0x05, CHR 0x00, CHR 0x00, CHR 0x00, CHR 0x02,
      CHR 0x6e, CHR 0x61, CHR 0x6d, CHR 0x65, CHR 0x00, CHR 0x0c, CHR 0x00, CHR 0x00, CHR 0x00,
      CHR 0x43, CHR 0x72, CHR 0x65, CHR 0x61, CHR 0x74, CHR 0x65, CHR 0x46, CHR 0x69, CHR 0x6c,
      CHR 0x65, CHR 0x57, CHR 0x00, CHR 0x02, CHR 0x63, CHR 0x61, CHR 0x74, CHR 0x65, CHR 0x67,
      CHR 0x6f, CHR 0x72, CHR 0x79, CHR 0x00, CHR 0x0b, CHR 0x00, CHR 0x00, CHR 0x00, CHR 0x66,
      CHR 0x69, CHR 0x6c, CHR 0x65, CHR 0x73, CHR 0x79, CHR 0x73, CHR 0x74, CHR 0x65, CHR 0x6d,
      CHR 0x00, CHR 0x04, CHR 0x61, CHR 0x72, CHR 0x67, CHR 0x73, CHR 0x00, CHR 0x37, CHR 0x00,
      CHR 0x00, CHR 0x00, CHR 0x02, CHR 0x30, CHR 0x00, CHR 0x0b, CHR 0x00, CHR 0x00, CHR 0x00,
      CHR 0x69, CHR 0x73, CHR 0x5f, CHR 0x73, CHR 0x75, CHR 0x63, CHR 0x63, CHR 0x65, CHR 0x73,
      CHR 0x73, CHR 0x00, CHR 0x02, CHR 0x31, CHR 0x00, CHR 0x07, CHR 0x00, CHR 0x00, CHR 0x00,
      CHR 0x72, CHR 0x65, CHR 0x74, CHR 0x76, CHR 0x61, CHR 0x6c, CHR 0x00, CHR 0x02, CHR 0x32,
      CHR 0x00, CHR 0x0b, CHR 0x00, CHR 0x00, CHR 0x00, CHR 0x6c, CHR 0x70, CHR 0x46, CHR 0x69,
      CHR 0x6c, CHR 0x65, CHR 0x4e, CHR 0x61, CHR 0x6d, CHR 0x65, CHR 0x00, CHR 0x00, CHR 0x00]"

text \<open>The data message of the same scenario, 71 bytes.\<close>

definition createfile_data_doc :: doc where
  "createfile_data_doc =
     [(''I'', PInt 5),
      (''T'', PInt 1234),
      (''t'', PFloat (1 / 2)),
      (''args'', PList [PInt 1, PInt 0, PUni [CHR 0x43, CHR 0x3a, CHR 0x5c, CHR 0x61, CHR 0x2e, CHR 0x74, CHR 0x78, CHR 0x74]])]"

definition createfile_data_bytes :: string where
  "createfile_data_bytes =
     [CHR 0x47, CHR 0x00, CHR 0x00, CHR 0x00, CHR 0x10, CHR 0x49, CHR 0x00, CHR 0x05, CHR 0x00,
      CHR 0x00, CHR 0x00, CHR 0x10, CHR 0x54, CHR 0x00, CHR 0xd2, CHR 0x04, CHR 0x00, CHR 0x00,
      CHR 0x01, CHR 0x74, CHR 0x00, CHR 0x00, CHR 0x00, CHR 0x00, CHR 0x00, CHR 0x00, CHR 0x00,
      CHR 0xe0, CHR 0x3f, CHR 0x04, CHR 0x61, CHR 0x72, CHR 0x67, CHR 0x73, CHR 0x00, CHR 0x23,
      CHR 0x00, CHR 0x00, CHR 0x00, CHR 0x10, CHR 0x30, CHR 0x00, CHR 0x01, CHR 0x00, CHR 0x00,
      CHR 0x00, CHR 0x10, CHR 0x31, CHR 0x00, CHR 0x00, CHR 0x00, CHR 0x00, CHR 0x00, CHR 0x02,
      CHR 0x32, CHR 0x00, CHR 0x09, CHR 0x00, CHR 0x00, CHR 0x00, CHR 0x43, CHR 0x3a, CHR 0x5c,
      CHR 0x61, CHR 0x2e, CHR 0x74, CHR 0x78, CHR 0x74, CHR 0x00, CHR 0x00, CHR 0x00]"

text \<open>The \<open>info\<close> message \<open>log_new_process\<close> of the Linux analyzer sends first, 204 bytes.\<close>

definition linux_process_info_doc :: doc where
  "linux_process_info_doc =
     [(''I'', PInt 511),
      (''name'', PUni ''__process__''),
      (''type'', PUni ''info''),
      (''category'', PUni ''unkown''),
      (''args'', PList [PUni ''is_success'', PUni ''retval'', PUni ''TimeStamp'', PUni ''ProcessIdentifier'', PUni ''ParentProcessIdentifier'', PUni ''ModulePath''])]"

definition linux_process_info_bytes :: string where
  "linux_process_info_bytes =
     [CHR 0xcc, CHR 0x00, CHR 0x00, CHR 0x00, CHR 0x10, CHR 0x49, CHR 0x00, CHR 0xff, CHR 0x01,
      CHR 0x00, CHR 0x00, CHR 0x02, CHR 0x6e, CHR 0x61, CHR 0x6d, CHR 0x65, CHR 0x00, CHR 0x0c,
      CHR 0x00, CHR 0x00, CHR 0x00, CHR 0x5f, CHR 0x5f, CHR 0x70, CHR 0x72, CHR 0x6f, CHR 0x63,
      CHR 0x65, CHR 0x73, CHR 0x73, CHR 0x5f, CHR 0x5f, CHR 0x00, CHR 0x02, CHR 0x74, CHR 0x79,
      CHR 0x70, CHR 0x65, CHR 0x00, CHR 0x05, CHR 0x00, CHR 0x00, CHR 0x00, CHR 0x69, CHR 0x6e,
      CHR 0x66, CHR 0x6f, CHR 0x00, CHR 0x02, CHR 0x63, CHR 0x61, CHR 0x74, CHR 0x65, CHR 0x67,
      CHR 0x6f, CHR 0x72, CHR 0x79, CHR 0x00, CHR 0x07, CHR 0x00, CHR 0x00, CHR 0x00, CHR 0x75,
      CHR 0x6e, CHR 0x6b, CHR 0x6f, CHR 0x77, CHR 0x6e, CHR 0x00, CHR 0x04, CHR 0x61, CHR 0x72,
      CHR 0x67, CHR 0x73, CHR 0x00, CHR 0x80, CHR 0x00, CHR 0x00, CHR 0x00, CHR 0x02, CHR 0x30,
      CHR 0x00, CHR 0x0b, CHR 0x00, CHR 0x00, CHR 0x00, CHR 0x69, CHR 0x73, CHR 0x5f, CHR 0x73,
      CHR 0x75, CHR 0x63, CHR 0x63, CHR 0x65, CHR 0x73, CHR 0x73, CHR 0x00, CHR 0x02, CHR 0x31,
      CHR 0x00, CHR 0x07, CHR 0x00, CHR 0x00, CHR 0x00, CHR 0x72, CHR 0x65, CHR 0x74, CHR 0x76,
      CHR 0x61, CHR 0x6c, CHR 0x00, CHR 0x02, CHR 0x32, CHR 0x00, CHR 0x0a, CHR 0x00, CHR 0x00,
      CHR 0x00, CHR 0x54, CHR 0x69, CHR 0x6d, CHR 0x65, CHR 0x53, CHR 0x74, CHR 0x61, CHR 0x6d,
      CHR 0x70, CHR 0x00, CHR 0x02, CHR 0x33, CHR 0x00, CHR 0x12, CHR 0x00, CHR 0x00, CHR 0x00,
      CHR 0x50, CHR 0x72, CHR 0x6f, CHR 0x63, CHR 0x65, CHR 0x73, CHR 0x73, CHR 0x49, CHR 0x64,
      CHR 0x65, CHR 0x6e, CHR 0x74, CHR 0x69, CHR 0x66, CHR 0x69, CHR 0x65, CHR 0x72, CHR 0x00,
      CHR 0x02, CHR 0x34, CHR 0x00, CHR 0x18, CHR 0x00, CHR 0x00, CHR 0x00, CHR 0x50, CHR 0x61,
      CHR 0x72, CHR 0x65, CHR 0x6e, CHR 0x74, CHR 0x50, CHR 0x72, CHR 0x6f, CHR 0x63, CHR 0x65,
      CHR 0x73, CHR 0x73, CHR 0x49, CHR 0x64, CHR 0x65, CHR 0x6e, CHR 0x74, CHR 0x69, CHR 0x66,
      CHR 0x69, CHR 0x65, CHR 0x72, CHR 0x00, CHR 0x02, CHR 0x35, CHR 0x00, CHR 0x0b, CHR 0x00,
      CHR 0x00, CHR 0x00, CHR 0x4d, CHR 0x6f, CHR 0x64, CHR 0x75, CHR 0x6c, CHR 0x65, CHR 0x50,
      CHR 0x61, CHR 0x74, CHR 0x68, CHR 0x00, CHR 0x00, CHR 0x00]"

text \<open>Its data message, for process 1 with parent 0 and module \<open>ls\<close>, one second after the epoch, 86 bytes.\<close>

definition linux_process_data_doc :: doc where
  "linux_process_data_doc =
     [(''I'', PInt 511),
      (''T'', PInt 1),
      (''t'', PFloat (0 / 1)),
      (''args'', PList [PInt 1, PInt 0, PInt 1000, PInt 1, PInt 0, PUni ''ls''])]"

definition linux_process_data_bytes :: string where
  "linux_process_data_bytes =
     [CHR 0x56, CHR 0x00, CHR 0x00, CHR 0x00, CHR 0x10, CHR 0x49, CHR 0x00, CHR 0xff, CHR 0x01,
      CHR 0x00, CHR 0x00, CHR 0x10, CHR 0x54, CHR 0x00, CHR 0x01, CHR 0x00, CHR 0x00, CHR 0x00,
      CHR 0x01, CHR 0x74, CHR 0x00, CHR 0x00, CHR 0x00, CHR 0x00, CHR 0x00, CHR 0x00, CHR 0x00,
      CHR 0x00, CHR 0x00, CHR 0x04, CHR 0x61, CHR 0x72, CHR 0x67, CHR 0x73, CHR 0x00, CHR 0x32,
      CHR 0x00, CHR 0x00, CHR 0x00, CHR 0x10, CHR 0x30, CHR 0x00, CHR 0x01, CHR 0x00, CHR 0x00,
      CHR 0x00, CHR 0x10, CHR 0x31, CHR 0x00, CHR 0x00, CHR 0x00, CHR 0x00, CHR 0x00, CHR 0x10,
      CHR 0x32, CHR 0x00, CHR 0xe8, CHR 0x03, CHR 0x00, CHR 0x00, CHR 0x10, CHR 0x33, CHR 0x00,
      CHR 0x01, CHR 0x00, CHR 0x00, CHR 0x00, CHR 0x10, CHR 0x34, CHR 0x00, CHR 0x00, CHR 0x00,
      CHR 0x00, CHR 0x00, CHR 0x02, CHR 0x35, CHR 0x00, CHR 0x03, CHR 0x00, CHR 0x00, CHR 0x00,
      CHR 0x6c, CHR 0x73, CHR 0x00, CHR 0x00, CHR 0x00]"

text \<open>An \<open>info\<close> message that describes index 1 as \<open>__thread__\<close>, 84 bytes.\<close>

definition thread_info_doc :: doc where
  "thread_info_doc =
     [(''type'', PUni ''info''),
      (''I'', PInt 1),
      (''name'', PUni ''__thread__''),
      (''args'', PList [PUni ''ProcessIdentifier''])]"

definition thread_info_bytes :: string where
  "thread_info_bytes =
     [CHR 0x54, CHR 0x00, CHR 0x00, CHR 0x00, CHR 0x02, CHR 0x74, CHR 0x79, CHR 0x70, CHR 0x65,
      CHR 0x00, CHR 0x05, CHR 0x00, CHR 0x00, CHR 0x00, CHR 0x69, CHR 0x6e, CHR 0x66, CHR 0x6f,
      CHR 0x00, CHR 0x10, CHR 0x49, CHR 0x00, CHR 0x01, CHR 0x00, CHR 0x00, CHR 0x00, CHR 0x02,
      CHR 0x6e, CHR 0x61, CHR 0x6d, CHR 0x65, CHR 0x00, CHR 0x0b, CHR 0x00, CHR 0x00, CHR 0x00,
      CHR 0x5f, CHR 0x5f, CHR 0x74, CHR 0x68, CHR 0x72, CHR 0x65, CHR 0x61, CHR 0x64, CHR 0x5f,
      CHR 0x5f, CHR 0x00, CHR 0x04, CHR 0x61, CHR 0x72, CHR 0x67, CHR 0x73, CHR 0x00, CHR 0x1e,
      CHR 0x00, CHR 0x00, CHR 0x00, CHR 0x02, CHR 0x30, CHR 0x00, CHR 0x12, CHR 0x00, CHR 0x00,
      CHR 0x00, CHR 0x50, CHR 0x72, CHR 0x6f, CHR 0x63, CHR 0x65, CHR 0x73, CHR 0x73, CHR 0x49,
      CHR 0x64, CHR 0x65, CHR 0x6e, CHR 0x74, CHR 0x69, CHR 0x66, CHR 0x69, CHR 0x65, CHR 0x72,
      CHR 0x00, CHR 0x00, CHR 0x00]"

text \<open>A data message for index 1 whose \<open>ProcessIdentifier\<close> is 2, 48 bytes.\<close>

definition thread_data_doc :: doc where
  "thread_data_doc =
     [(''I'', PInt 1),
      (''T'', PInt 7),
      (''t'', PFloat (1 / 4)),
      (''args'', PList [PInt 2])]"

definition thread_data_bytes :: string where
  "thread_data_bytes =
     [CHR 0x30, CHR 0x00, CHR 0x00, CHR 0x00, CHR 0x10, CHR 0x49, CHR 0x00, CHR 0x01, CHR 0x00,
      CHR 0x00, CHR 0x00, CHR 0x10, CHR 0x54, CHR 0x00, CHR 0x07, CHR 0x00, CHR 0x00, CHR 0x00,
      CHR 0x01, CHR 0x74, CHR 0x00, CHR 0x00, CHR 0x00, CHR 0x00, CHR 0x00, CHR 0x00, CHR 0x00,
      CHR 0xd0, CHR 0x3f, CHR 0x04, CHR 0x61, CHR 0x72, CHR 0x67, CHR 0x73, CHR 0x00, CHR 0x0c,
      CHR 0x00, CHR 0x00, CHR 0x00, CHR 0x10, CHR 0x30, CHR 0x00, CHR 0x02, CHR 0x00, CHR 0x00,
      CHR 0x00, CHR 0x00, CHR 0x00]"

text \<open>Documents used as decoded, without their bytes.\<close>

text \<open>An \<open>info\<close> message for \<open>__process__\<close> with the PascalCase layout.\<close>

definition pascal_info_doc :: doc where
  "pascal_info_doc =
     [(''type'', PUni ''info''),
      (''I'', PInt 2),
      (''name'', PUni ''__process__''),
      (''args'', PList [PUni ''TimeLow'', PUni ''TimeHigh'', PUni ''ProcessIdentifier'', PUni ''ParentProcessIdentifier'', PUni ''ModulePath''])]"

text \<open>An \<open>info\<close> message for \<open>__process__\<close> with the snake_case layout.\<close>

definition snake_info_doc :: doc where
  "snake_info_doc =
     [(''type'', PUni ''info''),
      (''I'', PInt 3),
      (''name'', PUni ''__process__''),
      (''args'', PList [PUni ''time_low'', PUni ''time_high'', PUni ''pid'', PUni ''ppid'', PUni ''module_path''])]"

text \<open>A process message in the first layout.\<close>

definition pascal_data_doc :: doc where
  "pascal_data_doc =
     [(''I'', PInt 2),
      (''T'', PInt 9),
      (''t'', PFloat (1 / 2)),
      (''args'', PList [PInt 10000000, PInt 0, PInt 4, PInt 1, PUni ''a.exe''])]"

text \<open>The same values in the second layout.\<close>

definition snake_data_doc :: doc where
  "snake_data_doc =
     [(''I'', PInt 3),
      (''T'', PInt 9),
      (''t'', PFloat (1 / 2)),
      (''args'', PList [PInt 10000000, PInt 0, PInt 4, PInt 1, PUni ''a.exe''])]"

text \<open>An \<open>info\<close> message that registers a \<open>flags_value\<close> table and no \<open>flags_bitmask\<close> table.\<close>

definition flags_info_doc :: doc where
  "flags_info_doc =
     [(''type'', PUni ''info''),
      (''I'', PInt 6),
      (''name'', PUni ''NtOpenFile''),
      (''args'', PList [PUni ''access'']),
      (''flags_value'', PDict [(''access'', PList [PList [PInt 1, PUni ''READ'']])])]"

text \<open>A call of that name.\<close>

definition flags_data_doc :: doc where
  "flags_data_doc =
     [(''I'', PInt 6),
      (''T'', PInt 9),
      (''t'', PFloat (1 / 2)),
      (''args'', PList [PInt 1])]"

text \<open>A \<open>buffer\<close> message with an empty payload and its SHA-1.\<close>

definition buffer_ok_doc :: doc where
  "buffer_ok_doc =
     [(''type'', PUni ''buffer''),
      (''buffer'', PStr []),
      (''checksum'', PUni sha1_empty)]"

text \<open>A \<open>buffer\<close> message with an empty payload and another checksum.\<close>

definition buffer_bad_doc :: doc where
  "buffer_bad_doc =
     [(''type'', PUni ''buffer''),
      (''buffer'', PStr []),
      (''checksum'', PUni ''00'')]"

definition example_table :: "(string \<times> doc) list" where
  "example_table =
     [(process_info_bytes, process_info_doc),
      (index0_data_bytes, index0_data_doc),
      (index7_data_bytes, index7_data_doc),
      (debug_msg_bytes, debug_msg_doc),
      (createfile_info_bytes, createfile_info_doc),
      (createfile_data_bytes, createfile_data_doc),
      (linux_process_info_bytes, linux_process_info_doc),
      (linux_process_data_bytes, linux_process_data_doc),
      (thread_info_bytes, thread_info_doc),
      (thread_data_bytes, thread_data_doc)]"

section \<open>Frame codec: round trip\<close>

lemma le32_digits:
  "(n::nat) mod 256 + 256 * (n div 256 mod 256) + 65536 * (n div 65536 mod 256) +
     16777216 * (n div 16777216) = n"
proof -
  define a where "a = n div 256"
  define b where "b = a div 256"
  define c where "c = b div 256"
  have d2: "n div 65536 = b" unfolding b_def a_def by (simp add: div_mult2_eq [symmetric])
  have d3: "n div 16777216 = c" unfolding c_def b_def a_def by (simp add: div_mult2_eq [symmetric])
  have n: "n = n mod 256 + 256 * a" unfolding a_def by simp
  have a: "a = a mod 256 + 256 * b" unfolding b_def by simp
  have b: "b = b mod 256 + 256 * c" unfolding c_def by simp
  have "n mod 256 + 256 * (a mod 256) + 65536 * (b mod 256) + 16777216 * c = n"
    using n a b by linarith
  then show ?thesis unfolding d2 d3 a_def [symmetric] .
qed

lemma unpack_pack: "n < 2 ^ 32 \<Longrightarrow> unpack_I (pack_I n @ rest) = n"
  unfolding unpack_I_def pack_I_def
  by (simp add: le32_digits)

lemma sock_send_ok:
  "\<forall>k\<in>set (plan sk). 0 < k \<Longrightarrow> buf \<noteq> [] \<Longrightarrow>
   0 < fst (sock_send sk buf) \<and> fst (sock_send sk buf) \<le> length buf
   \<and> wire (snd (sock_send sk buf)) = wire sk @ take (fst (sock_send sk buf)) buf
   \<and> (\<forall>k\<in>set (plan (snd (sock_send sk buf))). 0 < k)"
  by (cases "plan sk") (auto simp: sock_send_def)

lemma log_raw_loop_ok:
  "\<forall>k\<in>set (plan sk). 0 < k \<Longrightarrow> t \<le> length buf \<Longrightarrow>
   fst (log_raw_loop sk buf t) = None \<and> wire (snd (log_raw_loop sk buf t)) = wire sk @ drop t buf
   \<and> (\<forall>k\<in>set (plan (snd (log_raw_loop sk buf t))). 0 < k)"
proof (induction sk buf t rule: log_raw_loop.induct)
  case (1 sk buf t)
  show ?case
  proof (cases "t < length buf")
    case False
    then have "log_raw_loop sk buf t = (None, sk)"
      by (subst log_raw_loop.simps) simp
    with False 1(2,3) show ?thesis by simp
  next
    case True
    define r where "r = sock_send sk (drop t buf)"
    from True have ne: "drop t buf \<noteq> []" by simp
    have s: "0 < fst r" "fst r \<le> length (drop t buf)"
      "wire (snd r) = wire sk @ take (fst r) (drop t buf)"
      "\<forall>k\<in>set (plan (snd r)). 0 < k"
      using sock_send_ok [OF 1(2) ne] unfolding r_def by blast+
    from s(1) have pos: "fst (sock_send sk (drop t buf)) \<noteq> 0" unfolding r_def by simp
    from s(2) True have le: "t + fst r \<le> length buf" by simp
    have unf: "log_raw_loop sk buf t = log_raw_loop (snd r) buf (t + fst r)"
      unfolding r_def using True pos by (subst log_raw_loop.simps) simp
    have ih: "fst (log_raw_loop (snd r) buf (t + fst r)) = None \<and>
       wire (snd (log_raw_loop (snd r) buf (t + fst r))) = wire (snd r) @ drop (t + fst r) buf \<and>
       (\<forall>k\<in>set (plan (snd (log_raw_loop (snd r) buf (t + fst r)))). 0 < k)"
      using 1(1) [OF True pos] s(4) le unfolding r_def by blast
    have tk: "take (fst r) (drop t buf) @ drop (t + fst r) buf = drop t buf"
      by (metis append_take_drop_id drop_drop add.commute)
    have "wire (snd r) @ drop (t + fst r) buf = wire sk @ drop t buf"
      unfolding s(3) using tk by simp
    with ih show ?thesis unfolding unf by simp
  qed
qed

lemma read_frame_whole:
  assumes "n < 2 ^ 32" "n \<le> MAX_MESSAGE_LENGTH" "4 \<le> n" "length body = n - 4"
  shows "read_frame (pack_I n @ body) = Inr (pack_I n @ body, [])"
proof -
  have l: "length (pack_I n) = 4" "pack_I n \<noteq> []" by (simp_all add: pack_I_def)
  have t: "take 4 (pack_I n @ body) = pack_I n" "drop 4 (pack_I n @ body) = body" using l by simp_all
  have u: "unpack_I (pack_I n) = n" using unpack_pack [OF assms(1), of "[]"] by simp
  show ?thesis using assms l
    by (simp add: read_frame_def fd_read_def t u Let_def)
qed

lemma read_frame_too_large:
  assumes "n < 2 ^ 32" "MAX_MESSAGE_LENGTH < n"
  shows "read_frame (pack_I n @ body) = Inl TooLarge"
proof -
  have l: "length (pack_I n) = 4" "pack_I n \<noteq> []" by (simp_all add: pack_I_def)
  have t: "take 4 (pack_I n @ body) = pack_I n" "drop 4 (pack_I n @ body) = body" using l by simp_all
  have u: "unpack_I (pack_I n) = n" using unpack_pack [OF assms(1), of "[]"] by simp
  show ?thesis using assms l
    by (simp add: read_frame_def fd_read_def t u Let_def)
qed

text \<open>
  C5. A body of at most \<open>MAX_MESSAGE_LENGTH - 4\<close> bytes, written as a frame on a fresh
  connection whose transport never takes zero bytes, is read back whole: the reader returns
  the frame it was sent, the bytes after the four length bytes are the body, and nothing
  is left on the stream. A longer body either cannot be framed (its length does not fit
  four bytes) or gives a frame the reader refuses as too large.
\<close>

theorem frame_round_trip:
  assumes "wire sk = []" and "\<forall>k\<in>set (plan sk). 0 < k"
  shows "(length body \<le> MAX_MESSAGE_LENGTH - 4 \<longrightarrow>
            fst (write_frame sk body) = None \<and>
            (\<exists>f. read_frame (wire (snd (write_frame sk body))) = Inr (f, []) \<and> drop 4 f = body))
       \<and> (MAX_MESSAGE_LENGTH - 4 < length body \<longrightarrow>
            (if 4 + length body < 2 ^ 32
             then fst (write_frame sk body) = None \<and>
                  read_frame (wire (snd (write_frame sk body))) = Inl TooLarge
             else write_frame sk body = (Some StructError, sk)))"
proof (intro conjI impI)
  assume le: "length body \<le> MAX_MESSAGE_LENGTH - 4"
  define n where "n = 4 + length body"
  have n: "n < 2 ^ 32" "n \<le> MAX_MESSAGE_LENGTH" "4 \<le> n" "length body = n - 4"
    using le unfolding n_def MAX_MESSAGE_LENGTH_def by simp_all
  have w: "write_frame sk body = log_raw_loop sk (pack_I n @ body) 0"
    using n(1) unfolding write_frame_def frame_of_def log_raw_direct_def n_def by simp
  note ok = log_raw_loop_ok [OF assms(2), of 0 "pack_I n @ body"]
  have wr: "wire (snd (write_frame sk body)) = pack_I n @ body"
    using ok assms(1) unfolding w by simp
  show "fst (write_frame sk body) = None" using ok unfolding w by simp
  have "length (pack_I n) = 4" by (simp add: pack_I_def)
  then have "drop 4 (pack_I n @ body) = body" by simp
  then show "\<exists>f. read_frame (wire (snd (write_frame sk body))) = Inr (f, []) \<and> drop 4 f = body"
    unfolding wr using read_frame_whole [OF n] by blast
next
  assume gt: "MAX_MESSAGE_LENGTH - 4 < length body"
  show "if 4 + length body < 2 ^ 32
        then fst (write_frame sk body) = None \<and>
             read_frame (wire (snd (write_frame sk body))) = Inl TooLarge
        else write_frame sk body = (Some StructError, sk)"
  proof (cases "4 + length body < 2 ^ 32")
    case False
    then show ?thesis unfolding write_frame_def frame_of_def by simp
  next
    case True
    define n where "n = 4 + length body"
    have n: "n < 2 ^ 32" "MAX_MESSAGE_LENGTH < n" using True gt unfolding n_def by simp_all
    have w: "write_frame sk body = log_raw_loop sk (pack_I n @ body) 0"
      using n(1) unfolding write_frame_def frame_of_def log_raw_direct_def n_def by simp
    note ok = log_raw_loop_ok [OF assms(2), of 0 "pack_I n @ body"]
    have wr: "wire (snd (write_frame sk body)) = pack_I n @ body"
      using ok assms(1) unfolding w by simp
    have "fst (write_frame sk body) = None" using ok unfolding w by simp
    moreover have "read_frame (wire (snd (write_frame sk body))) = Inl TooLarge"
      unfolding wr by (rule read_frame_too_large [OF n])
    ultimately show ?thesis using True by simp
  qed
qed

theorem frame_round_trip_witness:
  "fst (write_frame \<lparr>wire = [], plan = [1, 2]\<rparr> ''abc'') = None
   \<and> (\<exists>f. read_frame (wire (snd (write_frame \<lparr>wire = [], plan = [1, 2]\<rparr> ''abc''))) = Inr (f, [])
            \<and> drop 4 f = ''abc'')
   \<and> fst (write_frame \<lparr>wire = [], plan = [1, 2]\<rparr> (replicate 20971517 CHR ''a'')) = None
   \<and> read_frame (wire (snd (write_frame \<lparr>wire = [], plan = [1, 2]\<rparr> (replicate 20971517 CHR ''a''))))
         = Inl TooLarge"
  using frame_round_trip [of "\<lparr>wire = [], plan = [1, 2]\<rparr>" "''abc''"]
        frame_round_trip [of "\<lparr>wire = [], plan = [1, 2]\<rparr>" "replicate 20971517 CHR ''a''"]
  by (simp add: MAX_MESSAGE_LENGTH_def)

section \<open>Sender: category of a call\<close>

lemma str_contains_iff: "str_contains sub s \<longleftrightarrow> (\<exists>pre post. s = pre @ sub @ post)"
proof (induction s)
  case Nil
  then show ?case by auto
next
  case (Cons c cs)
  have pre: "take (length sub) (c # cs) = sub \<longleftrightarrow> (\<exists>post. c # cs = sub @ post)"
    by (metis append_eq_conv_conj)
  show ?case
  proof
    assume "str_contains sub (c # cs)"
    then consider "take (length sub) (c # cs) = sub" | "str_contains sub cs" by auto
    then show "\<exists>pre post. c # cs = pre @ sub @ post"
    proof cases
      case 1
      then obtain post where "c # cs = sub @ post" using pre by blast
      then have "c # cs = [] @ sub @ post" by simp
      then show ?thesis by blast
    next
      case 2
      then obtain p q where "cs = p @ sub @ q" using Cons.IH by blast
      then have "c # cs = (c # p) @ sub @ q" by simp
      then show ?thesis by blast
    qed
  next
    assume "\<exists>pre post. c # cs = pre @ sub @ post"
    then obtain p q where pq: "c # cs = p @ sub @ q" by blast
    show "str_contains sub (c # cs)"
    proof (cases p)
      case Nil
      with pq have "c # cs = sub @ q" by simp
      then have "take (length sub) (c # cs) = sub" using pre by blast
      then show ?thesis by simp
    next
      case (Cons a p')
      with pq have "cs = p' @ sub @ q" by simp
      then show ?thesis using Cons.IH by auto
    qed
  qed
qed

lemma filename_arg_iff:
  "filename_arg args \<longleftrightarrow> (\<exists>s. PStr s \<in> set args \<and> str_contains ''filename'' s)"
proof (induction args)
  case Nil
  then show ?case by simp
next
  case (Cons a args)
  then show ?case by (cases a) auto
qed

text \<open>
  C6. For a name in none of the three syscall sets, \<open>resolve_category\<close> returns
  \<open>filesystem\<close> when some byte-string argument contains \<open>filename\<close>, and otherwise the
  literal the code spells \<open>unkown\<close>, which is not the string \<open>unknown\<close>.
\<close>

theorem resolve_category_fallback:
  assumes "name \<notin> set (SOCKET_SYSCALL_NAMES env)"
    and "name \<notin> set SOCKET_SYSCALL_FILESYSTEM_NAMES"
    and "name \<notin> set SOCKET_SYSCALL_PROCESS_NAMES"
  shows "resolve_category env name args =
           (if \<exists>s pre post. PStr s \<in> set args \<and> s = pre @ ''filename'' @ post
            then ''filesystem'' else ''unkown'')"
proof -
  have "filename_arg args \<longleftrightarrow> (\<exists>s pre post. PStr s \<in> set args \<and> s = pre @ ''filename'' @ post)"
    unfolding filename_arg_iff str_contains_iff by blast
  then show ?thesis using assms unfolding resolve_category_def by simp
qed

theorem resolve_category_fallback_witness:
  "resolve_category example_sender ''getpid'' [] = ''unkown''
   \<and> resolve_category example_sender ''getpid'' [] \<noteq> ''unknown''
   \<and> resolve_category example_sender ''getpid'' [PStr ''filename'', PStr ''/etc/passwd''] = ''filesystem''"
proof -
  have h1: "''getpid'' \<notin> set (SOCKET_SYSCALL_NAMES example_sender)"
    by (simp add: example_sender_def)
  have h2: "''getpid'' \<notin> set SOCKET_SYSCALL_FILESYSTEM_NAMES"
    by (simp add: SOCKET_SYSCALL_FILESYSTEM_NAMES_def)
  have h3: "''getpid'' \<notin> set SOCKET_SYSCALL_PROCESS_NAMES"
    by (simp add: SOCKET_SYSCALL_PROCESS_NAMES_def)
  have no: "\<not> (\<exists>s pre post. PStr s \<in> set [] \<and> s = pre @ ''filename'' @ post)" by simp
  have "PStr ''filename'' \<in> set [PStr ''filename'', PStr ''/etc/passwd'']
        \<and> ''filename'' = [] @ ''filename'' @ []" by simp
  then have yes: "\<exists>s pre post. PStr s \<in> set [PStr ''filename'', PStr ''/etc/passwd'']
                    \<and> s = pre @ ''filename'' @ post" by blast
  have a: "resolve_category example_sender ''getpid'' [] = ''unkown''"
    using resolve_category_fallback [OF h1 h2 h3, of "[]"] no by (simp only: if_False)
  have b: "resolve_category example_sender ''getpid'' [PStr ''filename'', PStr ''/etc/passwd''] = ''filesystem''"
    using resolve_category_fallback [OF h1 h2 h3, of "[PStr ''filename'', PStr ''/etc/passwd'']"] yes
    by (simp only: if_True)
  show ?thesis unfolding a b by simp
qed

section \<open>Receiver: evaluation of the examples\<close>

lemmas value_eval =
  dget_def dhas_def py_eq_str_def ascii_def text_key_def py_key_def format_ok_def py_truthy_def
  py_iter_def py_len_def py_elems_def int_of_def num_of_def andthen_def pair_of_def py_dict_def
  text_of_def is_PStr_def py_join_def default_converter_def apply_conv_def argname_of_def
  converter_of_def check_names_for_typeinfo_def

lemmas receiver_eval =
  handle_def handle_info_def handle_buffer_def handle_call_def handle_process_def
  handle_thread_def handle_apicall_def apicall_record_def register_flags_value_def
  register_flags_bitmask_def frame_argdict_def parsed_init_def process_fields_def get_arg_def
  has_arg_def filetime_def resolve_flags_def flag_value_def buffer_bytes_def BsonParser_init_def
  msg_index_def msg_args_def msg_parsed_def data_frame_def call_frame_def

lemma unpack_I_append: "4 \<le> length f \<Longrightarrow> unpack_I (take 4 (f @ rest)) = unpack_I f"
  by (simp add: unpack_I_def nth_append)

lemma read_frame_append:
  assumes "4 \<le> length f" and "unpack_I f = length f" and "length f \<le> MAX_MESSAGE_LENGTH"
  shows "read_frame (f @ rest) = Inr (f, rest)"
proof -
  have t: "take 4 (f @ rest) = take 4 f" using assms(1) by simp
  have u: "unpack_I (take 4 f) = length f" using unpack_I_append [OF assms(1), of "[]"] assms(2) by simp
  have ne: "take 4 f \<noteq> []" "length (take 4 f) = 4" using assms(1) by auto
  have d: "take 4 f @ take (length f - 4) (drop 4 f @ rest) = f"
    using assms(1) by (metis append_take_drop_id diff_is_0_eq' length_drop order_refl take0 take_all take_append append_Nil2)
  have d2: "drop (length f - 4) (drop 4 f @ rest) = rest" using assms(1) by simp
  show ?thesis
    unfolding read_frame_def fd_read_def
    using assms ne by (simp add: t u Let_def d d2 int_ops)
qed

lemmas example_bytes =
  index7_data_bytes_def debug_msg_bytes_def process_info_bytes_def index0_data_bytes_def
  createfile_info_bytes_def createfile_data_bytes_def linux_process_info_bytes_def
  linux_process_data_bytes_def thread_info_bytes_def thread_data_bytes_def

lemma ex_frames:
  "read_frame (index7_data_bytes @ rest) = Inr (index7_data_bytes, rest)"
  "read_frame (debug_msg_bytes @ rest) = Inr (debug_msg_bytes, rest)"
  "read_frame (process_info_bytes @ rest) = Inr (process_info_bytes, rest)"
  "read_frame (index0_data_bytes @ rest) = Inr (index0_data_bytes, rest)"
  "read_frame (createfile_info_bytes @ rest) = Inr (createfile_info_bytes, rest)"
  "read_frame (createfile_data_bytes @ rest) = Inr (createfile_data_bytes, rest)"
  "read_frame (linux_process_info_bytes @ rest) = Inr (linux_process_info_bytes, rest)"
  "read_frame (linux_process_data_bytes @ rest) = Inr (linux_process_data_bytes, rest)"
  "read_frame (thread_info_bytes @ rest) = Inr (thread_info_bytes, rest)"
  "read_frame (thread_data_bytes @ rest) = Inr (thread_data_bytes, rest)"
  by (rule read_frame_append; simp add: example_bytes unpack_I_def MAX_MESSAGE_LENGTH_def)+

lemma ex_decode:
  "bson_decode (example_receiver example_table) index7_data_bytes = Some index7_data_doc"
  "bson_decode (example_receiver example_table) debug_msg_bytes = Some debug_msg_doc"
  "bson_decode (example_receiver example_table) process_info_bytes = Some process_info_doc"
  "bson_decode (example_receiver example_table) index0_data_bytes = Some index0_data_doc"
  "bson_decode (example_receiver example_table) createfile_info_bytes = Some createfile_info_doc"
  "bson_decode (example_receiver example_table) createfile_data_bytes = Some createfile_data_doc"
  "bson_decode (example_receiver example_table) linux_process_info_bytes = Some linux_process_info_doc"
  "bson_decode (example_receiver example_table) linux_process_data_bytes = Some linux_process_data_doc"
  "bson_decode (example_receiver example_table) thread_info_bytes = Some thread_info_doc"
  "bson_decode (example_receiver example_table) thread_data_bytes = Some thread_data_doc"
  by (simp_all add: example_receiver_def example_table_def example_bytes)

lemma read_frame_Nil: "read_frame [] = Inl EndOfStream"
  by (simp add: read_frame_def fd_read_def)

lemma iter_unfold:
  "iter env st fd =
     (case read_frame fd of
        Inl r \<Rightarrow> ([], Stopped r, st)
      | Inr frame \<Rightarrow>
          (case bson_decode env (fst frame) of
             None \<Rightarrow> ([], Stopped DecodingProblem, st)
           | Some dec \<Rightarrow>
               (case fst (handle env st dec) of
                  Continue \<Rightarrow> iter env (snd (handle env st dec)) (snd frame)
                | Yield p \<Rightarrow>
                    (p # fst (iter env (snd (handle env st dec)) (snd frame)),
                     snd (iter env (snd (handle env st dec)) (snd frame)))
                | Raise e \<Rightarrow> ([], Raised e, snd (handle env st dec)))))"
  by (subst iter.simps) (rule refl)

lemma iter_end: "iter env st [] = ([], Stopped EndOfStream, st)"
  by (subst iter_unfold) (simp add: read_frame_Nil)

lemma iter_continue:
  assumes "read_frame fd = Inr frame" and "bson_decode env (fst frame) = Some dec"
    and "handle env st dec = (Continue, st')"
  shows "iter env st fd = iter env st' (snd frame)"
  using assms by (subst iter_unfold) simp

lemma iter_yield:
  assumes "read_frame fd = Inr frame" and "bson_decode env (fst frame) = Some dec"
    and "handle env st dec = (Yield p, st')"
  shows "iter env st fd = (p # fst (iter env st' (snd frame)), snd (iter env st' (snd frame)))"
  using assms by (subst iter_unfold) simp

lemma iter_raise:
  assumes "read_frame fd = Inr frame" and "bson_decode env (fst frame) = Some dec"
    and "handle env st dec = (Raise e, st')"
  shows "iter env st fd = ([], Raised e, st')"
  using assms by (subst iter_unfold) simp

section \<open>Receiver: one message\<close>

lemma handle_data_frame:
  "data_frame dec \<Longrightarrow> handle env st dec = handle_call env st dec (msg_index dec) (msg_parsed dec)"
  by (simp add: handle_def data_frame_def msg_index_def msg_parsed_def Let_def)

lemma handle_call_frame:
  assumes "call_frame st dec (apiname, arginfo, argnames, converters, category) argd"
  shows "handle env st dec =
           (if py_eq_str apiname ''__process__'' then handle_process env st (msg_parsed dec) argd
            else if py_eq_str apiname ''__thread__'' then handle_thread st (msg_parsed dec) argd
            else handle_apicall env st dec (msg_parsed dec) apiname category argd)"
proof -
  from assms have df: "data_frame dec" by (simp add: call_frame_def)
  from assms obtain ik where ik: "py_key (msg_index dec) = Some ik"
      "map_of (infomap st) ik = Some (apiname, arginfo, argnames, converters, category)"
    by (auto simp: call_frame_def split: option.splits)
  from assms have len: "py_len (dget dec ''args'' (PList [])) = Some (length argnames)"
    and ad: "frame_argdict argnames converters (dget dec ''args'' (PList [])) = Inr argd"
    by (simp_all add: call_frame_def msg_args_def)
  show ?thesis
    unfolding handle_data_frame [OF df] handle_call_def
    by (simp add: ik len ad Let_def)
qed

lemma r_pid_apicall_record [simp]:
  "r_pid (apicall_record st dec parsed0 apiname category argd) = Some (pid st)"
  "r_api (apicall_record st dec parsed0 apiname category argd) = Some apiname"
  "r_type (apicall_record st dec parsed0 apiname category argd) = PStr ''apicall''"
  by (simp_all add: apicall_record_def Let_def)

lemma register_flags_value_pid: "pid (snd (register_flags_value st name dec)) = pid st"
  unfolding register_flags_value_def
  by (cases "dget dec ''flags_value'' PNone"; cases "py_key name"; simp)

lemma register_flags_bitmask_pid: "pid (snd (register_flags_bitmask st name dec)) = pid st"
  unfolding register_flags_bitmask_def
  by (cases "dget dec ''flags_bitmask'' PNone"; cases "py_key name"; simp)

lemma handle_info_pid:
  "pid (snd (handle_info st dec i)) = pid st \<and> (\<forall>r. fst (handle_info st dec i) \<noteq> Yield r)"
proof (cases "check_names_for_typeinfo (dget dec ''args'' (PList []))")
  case (Inl e)
  then show ?thesis by (simp add: handle_info_def)
next
  case (Inr names)
  show ?thesis
  proof (cases "py_key i")
    case None
    with Inr show ?thesis by (simp add: handle_info_def)
  next
    case (Some ik)
    define st1 where "st1 = st\<lparr>infomap := AList.update ik (dget dec ''name'' (PStr ''NONAME''), dget dec ''args'' (PList []), fst names, snd names, dget dec ''category'' PNone) (infomap st)\<rparr>"
    define name where "name = dget dec ''name'' (PStr ''NONAME'')"
    obtain e2 st2 where r2: "register_flags_value st1 name dec = (e2, st2)" by (cases "register_flags_value st1 name dec")
    obtain e3 st3 where r3: "register_flags_bitmask st2 name dec = (e3, st3)" by (cases "register_flags_bitmask st2 name dec")
    have p1: "pid st1 = pid st" by (simp add: st1_def)
    have p2: "pid st2 = pid st" using register_flags_value_pid [of st1 name dec] r2 p1 by simp
    have p3: "pid st3 = pid st" using register_flags_bitmask_pid [of st2 name dec] r3 p2 by simp
    have "handle_info st dec i =
            (case register_flags_value st1 name dec of
               (Some e, st2) \<Rightarrow> (Raise e, st2)
             | (None, st2) \<Rightarrow>
                 (case register_flags_bitmask st2 name dec of
                    (Some e, st3) \<Rightarrow> (Raise e, st3)
                  | (None, st3) \<Rightarrow> (Continue, st3)))"
      unfolding handle_info_def Let_def st1_def name_def using Inr Some by simp
    then have "handle_info st dec i =
            (case e2 of Some e \<Rightarrow> (Raise e, st2)
             | None \<Rightarrow> (case e3 of Some e \<Rightarrow> (Raise e, st3) | None \<Rightarrow> (Continue, st3)))"
      unfolding r2 by (cases e2; cases e3; simp add: r3)
    then show ?thesis using p2 p3 by (cases e2; cases e3; simp)
  qed
qed

lemma handle_buffer_pid:
  "pid (snd (handle_buffer env st dec)) = pid st \<and> (\<forall>r. fst (handle_buffer env st dec) \<noteq> Yield r)"
  by (simp add: handle_buffer_def Let_def split: sum.splits option.splits)

lemma handle_process_pid:
  "pid (snd (handle_process env st p0 argd)) = pid st
   \<or> (\<exists>r. fst (handle_process env st p0 argd) = Yield r \<and> r_first_seen r \<noteq> None)"
  by (simp add: handle_process_def split: sum.splits)

lemma handle_process_api:
  "fst (handle_process env st p0 argd) = Yield r \<Longrightarrow> r_api r = r_api p0"
  by (auto simp add: handle_process_def split: sum.splits)

lemma handle_thread_pid:
  "pid (snd (handle_thread st p0 argd)) = pid st"
  "fst (handle_thread st p0 argd) = Yield r \<Longrightarrow> r_api r = r_api p0"
  by (auto simp add: handle_thread_def split: sum.splits)

lemma handle_apicall_pid:
  "pid (snd (handle_apicall env st dec p0 apiname category argd)) = pid st"
  "fst (handle_apicall env st dec p0 apiname category argd) = Yield r \<Longrightarrow> r_pid r = Some (pid st)"
  by (auto simp add: handle_apicall_def Let_def split: sum.splits option.splits if_splits)

lemma handle_call_pid:
  assumes "r_api p0 = None"
  shows "(pid (snd (handle_call env st dec i p0)) = pid st
          \<or> (\<exists>r. fst (handle_call env st dec i p0) = Yield r \<and> r_first_seen r \<noteq> None))
       \<and> (\<forall>r. fst (handle_call env st dec i p0) = Yield r \<and> r_api r \<noteq> None \<longrightarrow> r_pid r = Some (pid st))"
proof (cases "py_key i")
  case None
  then show ?thesis by (simp add: handle_call_def)
next
  case (Some ik)
  show ?thesis
  proof (cases "map_of (infomap st) ik")
    case None
    with Some show ?thesis by (simp add: handle_call_def)
  next
    case d: (Some d)
    obtain apiname arginfo argnames converters category
      where dd: "d = (apiname, arginfo, argnames, converters, category)" by (cases d)
    show ?thesis
    proof (cases "py_len (dget dec ''args'' (PList []))")
      case None
      with Some d show ?thesis by (simp add: handle_call_def)
    next
      case n: (Some n)
      show ?thesis
      proof (cases "n = length argnames")
        case False
        with Some d n dd show ?thesis by (simp add: handle_call_def)
      next
        case True
        show ?thesis
        proof (cases "frame_argdict argnames converters (dget dec ''args'' (PList []))")
          case (Inl e)
          with Some d n dd True show ?thesis by (simp add: handle_call_def)
        next
          case (Inr argd)
          have hc: "handle_call env st dec i p0 =
              (if py_eq_str apiname ''__process__'' then handle_process env st p0 argd
               else if py_eq_str apiname ''__thread__'' then handle_thread st p0 argd
               else handle_apicall env st dec p0 apiname category argd)"
            using Some d n dd True Inr by (simp add: handle_call_def)
          consider (p) "py_eq_str apiname ''__process__''"
            | (t) "\<not> py_eq_str apiname ''__process__''" "py_eq_str apiname ''__thread__''"
            | (a) "\<not> py_eq_str apiname ''__process__''" "\<not> py_eq_str apiname ''__thread__''"
            by blast
          then show ?thesis
          proof cases
            case p
            then have h: "handle_call env st dec i p0 = handle_process env st p0 argd" using hc by simp
            show ?thesis unfolding h
              using handle_process_pid [of env st p0 argd] handle_process_api [of env st p0 argd] assms
              by auto
          next
            case t
            then have h: "handle_call env st dec i p0 = handle_thread st p0 argd" using hc by simp
            show ?thesis unfolding h
              using handle_thread_pid [of st p0 argd] assms by auto
          next
            case a
            then have h: "handle_call env st dec i p0 = handle_apicall env st dec p0 apiname category argd"
              using hc by simp
            show ?thesis unfolding h
              using handle_apicall_pid [of env st dec p0 apiname category argd] by auto
          qed
        qed
      qed
    qed
  qed
qed

lemma handle_pid:
  "(pid (snd (handle env st dec)) = pid st
      \<or> (\<exists>r. fst (handle env st dec) = Yield r \<and> r_first_seen r \<noteq> None))
   \<and> (\<forall>r. fst (handle env st dec) = Yield r \<and> r_api r \<noteq> None \<longrightarrow> r_pid r = Some (pid st))"
proof -
  define mtype where "mtype = dget dec ''type'' (PStr ''none'')"
  define p0 where "p0 = parsed_init mtype (dget dec ''T'' (PInt 0)) (dget dec ''t'' (PInt 0))"
  have p0: "r_api p0 = None" by (simp add: p0_def parsed_init_def)
  consider (i) "py_eq_str mtype ''info''"
    | (b) "\<not> py_eq_str mtype ''info''" "py_eq_str mtype ''buffer''"
    | (d) "\<not> py_eq_str mtype ''info''" "\<not> py_eq_str mtype ''buffer''" "py_eq_str mtype ''debug''"
    | (c) "\<not> py_eq_str mtype ''info''" "\<not> py_eq_str mtype ''buffer''" "\<not> py_eq_str mtype ''debug''"
    by blast
  then show ?thesis
  proof cases
    case i
    then have "handle env st dec = handle_info st dec (dget dec ''I'' (PInt (- 1)))"
      by (simp add: handle_def mtype_def)
    then show ?thesis using handle_info_pid [of st dec] by simp
  next
    case b
    then have "handle env st dec = handle_buffer env st dec"
      by (simp add: handle_def mtype_def)
    then show ?thesis using handle_buffer_pid [of env st dec] by simp
  next
    case d
    then have "snd (handle env st dec) = st" "\<And>r. fst (handle env st dec) = Yield r \<Longrightarrow> r_api r = None"
      by (auto simp add: handle_def mtype_def Let_def parsed_init_def split: if_splits)
    then show ?thesis by auto
  next
    case c
    then have "handle env st dec = handle_call env st dec (dget dec ''I'' (PInt (- 1))) p0"
      by (simp add: handle_def mtype_def p0_def Let_def)
    then show ?thesis
      using handle_call_pid [OF p0, of env st dec "dget dec ''I'' (PInt (- 1))"] by metis
  qed
qed

lemma iter_pid_None:
  "pid st = PNone \<Longrightarrow> fst (iter env st fd) = pre @ r # post \<Longrightarrow>
   \<forall>x\<in>set pre. r_first_seen x = None \<Longrightarrow> r_api r \<noteq> None \<Longrightarrow> r_pid r = Some PNone"
proof (induction env st fd arbitrary: pre rule: iter.induct)
  case (1 env st fd)
  show ?case
  proof (cases "read_frame fd")
    case (Inl s)
    with "1.prems"(2) show ?thesis by (subst (asm) iter_unfold) simp
  next
    case (Inr frame)
    show ?thesis
    proof (cases "bson_decode env (fst frame)")
      case None
      with Inr "1.prems"(2) show ?thesis by (subst (asm) iter_unfold) simp
    next
      case (Some dec)
      note hp = handle_pid [of env st dec]
      show ?thesis
      proof (cases "fst (handle env st dec)")
        case Continue
        then have eq: "iter env st fd = iter env (snd (handle env st dec)) (snd frame)"
          using Inr Some by (subst iter_unfold) simp
        from hp Continue "1.prems"(1) have "pid (snd (handle env st dec)) = PNone" by auto
        from "1.IH"(1) [OF Inr Some Continue this] "1.prems"(2-4) eq show ?thesis by simp
      next
        case (Yield p)
        then have eq: "fst (iter env st fd) = p # fst (iter env (snd (handle env st dec)) (snd frame))"
          using Inr Some by (subst iter_unfold) simp
        show ?thesis
        proof (cases pre)
          case Nil
          with eq "1.prems"(2) have "r = p" by simp
          with hp Yield "1.prems"(1,4) show ?thesis by auto
        next
          case (Cons a pre')
          with eq "1.prems"(2) have a: "a = p"
            and rest: "fst (iter env (snd (handle env st dec)) (snd frame)) = pre' @ r # post" by simp_all
          from Cons "1.prems"(3) a have "r_first_seen p = None" "\<forall>x\<in>set pre'. r_first_seen x = None" by simp_all
          with hp Yield "1.prems"(1) have "pid (snd (handle env st dec)) = PNone" by auto
          from "1.IH"(2) [OF Inr Some Yield this rest \<open>\<forall>x\<in>set pre'. r_first_seen x = None\<close> "1.prems"(4)]
          show ?thesis .
        qed
      next
        case (Raise e)
        with Inr Some "1.prems"(2) show ?thesis by (subst (asm) iter_unfold) simp
      qed
    qed
  qed
qed

section \<open>Receiver: undescribed indices and thread messages\<close>

text \<open>
  C4. A data message (its type is none of \<open>info\<close>, \<open>buffer\<close>, \<open>debug\<close>) whose index is a
  hashable value with no entry in \<open>infomap\<close> yields nothing and leaves the parser as it
  was; the iteration goes on with the frames that follow it.
\<close>

theorem undescribed_index_skipped:
  assumes "data_frame dec"
    and "py_key (msg_index dec) = Some ik"
    and "map_of (infomap st) ik = None"
  shows "handle env st dec = (Continue, st)
         \<and> (\<forall>fd frame. read_frame fd = Inr frame \<and> bson_decode env (fst frame) = Some dec
               \<longrightarrow> iter env st fd = iter env st (snd frame))"
proof -
  have h: "handle env st dec = (Continue, st)"
    unfolding handle_data_frame [OF assms(1)] handle_call_def
    by (simp add: assms(2,3))
  then show ?thesis using iter_continue by blast
qed


theorem undescribed_index_skipped_witness:
  "handle (example_receiver example_table) (BsonParser_init None) index7_data_doc
     = (Continue, BsonParser_init None)
   \<and> iter (example_receiver example_table) (BsonParser_init None) (index7_data_bytes @ debug_msg_bytes)
     = ([(parsed_init (PUni ''debug'') (PInt 0) (PInt 0))\<lparr>r_message := Some (PUni ''hi'')\<rparr>],
        Stopped EndOfStream, BsonParser_init None)"
proof -
  let ?E = "example_receiver example_table"
  let ?st = "BsonParser_init None"
  have a: "data_frame index7_data_doc"
    by (simp add: data_frame_def index7_data_doc_def value_eval)
  have b: "py_key (msg_index index7_data_doc) = Some (KNum 7)"
    by (simp add: msg_index_def index7_data_doc_def value_eval)
  have c: "map_of (infomap ?st) (KNum 7) = None"
    by (simp add: BsonParser_init_def)
  note t = undescribed_index_skipped [OF a b c, of ?E]
  have skip: "iter ?E ?st (index7_data_bytes @ debug_msg_bytes) = iter ?E ?st debug_msg_bytes"
    using t ex_frames(1) [of debug_msg_bytes] ex_decode(1) by simp
  have h: "handle ?E ?st debug_msg_doc
             = (Yield ((parsed_init (PUni ''debug'') (PInt 0) (PInt 0))\<lparr>r_message := Some (PUni ''hi'')\<rparr>), ?st)"
    by (simp add: handle_def debug_msg_doc_def value_eval Let_def)
  have rest: "iter ?E ?st debug_msg_bytes
             = ([(parsed_init (PUni ''debug'') (PInt 0) (PInt 0))\<lparr>r_message := Some (PUni ''hi'')\<rparr>],
                Stopped EndOfStream, ?st)"
    using iter_yield [OF ex_frames(2) [of "[]", unfolded append_Nil2] _ h] ex_decode(2)
    by (simp add: iter_end)
  show ?thesis using t skip rest by simp
qed

text \<open>
  C7, as the code has it. A message whose descriptor is named \<open>__thread__\<close> yields a record
  whose \<open>pid\<close> is the \<open>ProcessIdentifier\<close> argument of the message itself, after conversion;
  without that argument the lookup raises \<open>KeyError\<close>. The parser's own \<open>pid\<close> is neither
  read nor changed, and the record keeps the type the message came with.
\<close>

theorem thread_pid_from_frame:
  assumes "call_frame st dec (apiname, arginfo, argnames, converters, category) argd"
    and "py_eq_str apiname ''__thread__''"
  shows "handle env st dec =
           (case map_of argd (KText ''ProcessIdentifier'') of
              None \<Rightarrow> (Raise KeyError, st)
            | Some p \<Rightarrow> (Yield ((msg_parsed dec)\<lparr>r_pid := Some p\<rparr>), st))"
proof -
  from assms(2) have np: "\<not> py_eq_str apiname ''__process__''"
    by (auto simp: py_eq_str_def)
  show ?thesis
    unfolding handle_call_frame [OF assms(1)]
    by (simp add: np assms(2) handle_thread_def get_arg_def split: option.splits)
qed


lemma thread_stream_steps:
  fixes E st0 s1 s2 s3 s4
  defines "E \<equiv> example_receiver example_table"
    and "st0 \<equiv> BsonParser_init None"
    and "s1 \<equiv> snd (handle E st0 linux_process_info_doc)"
    and "s2 \<equiv> snd (handle E s1 linux_process_data_doc)"
    and "s3 \<equiv> snd (handle E s2 thread_info_doc)"
    and "s4 \<equiv> snd (handle E s3 thread_data_doc)"
  shows "fst (handle E st0 linux_process_info_doc) = Continue"
    and "fst (handle E s1 linux_process_data_doc)
           = Yield ((parsed_init (PStr ''process'') (PInt 1) (PFloat 0))
                      \<lparr>r_pid := Some (PInt 1), r_ppid := Some (PInt 0),
                        r_first_seen := Some (PDatetime 1), r_process_name := Some (PUni ''ls'')\<rparr>)"
    and "fst (handle E s2 thread_info_doc) = Continue"
    and "fst (handle E s3 thread_data_doc)
           = Yield ((parsed_init (PStr ''none'') (PInt 7) (PFloat (1 / 4)))\<lparr>r_pid := Some (PInt 2)\<rparr>)"
    and "pid s3 = PInt 1" and "pid s4 = PInt 1"
  unfolding E_def st0_def s1_def s2_def s3_def s4_def
  by (simp_all add: receiver_eval value_eval linux_process_info_doc_def linux_process_data_doc_def
        thread_info_doc_def thread_data_doc_def example_receiver_def Let_def)

theorem thread_pid_counterexample:
  "map r_pid (fst (iter (example_receiver example_table) (BsonParser_init None)
       (linux_process_info_bytes @ linux_process_data_bytes @ thread_info_bytes @ thread_data_bytes)))
     = [Some (PInt 1), Some (PInt 2)]
   \<and> map r_first_seen (fst (iter (example_receiver example_table) (BsonParser_init None)
       (linux_process_info_bytes @ linux_process_data_bytes @ thread_info_bytes @ thread_data_bytes)))
     = [Some (PDatetime 1), None]
   \<and> fst (snd (iter (example_receiver example_table) (BsonParser_init None)
       (linux_process_info_bytes @ linux_process_data_bytes @ thread_info_bytes @ thread_data_bytes)))
     = Stopped EndOfStream
   \<and> pid (snd (snd (iter (example_receiver example_table) (BsonParser_init None)
       (linux_process_info_bytes @ linux_process_data_bytes @ thread_info_bytes @ thread_data_bytes))))
     = PInt 1"
proof -
  define E where "E = example_receiver example_table"
  define st0 where "st0 = BsonParser_init None"
  define s1 where "s1 = snd (handle E st0 linux_process_info_doc)"
  define s2 where "s2 = snd (handle E s1 linux_process_data_doc)"
  define s3 where "s3 = snd (handle E s2 thread_info_doc)"
  define s4 where "s4 = snd (handle E s3 thread_data_doc)"
  have h1: "handle E st0 linux_process_info_doc = (Continue, s1)"
    unfolding s1_def E_def st0_def using thread_stream_steps(1) by (simp add: prod_eq_iff)
  have h2: "handle E s1 linux_process_data_doc
              = (Yield ((parsed_init (PStr ''process'') (PInt 1) (PFloat 0))
                      \<lparr>r_pid := Some (PInt 1), r_ppid := Some (PInt 0),
                        r_first_seen := Some (PDatetime 1), r_process_name := Some (PUni ''ls'')\<rparr>), s2)"
    unfolding s2_def s1_def E_def st0_def using thread_stream_steps(2) by (simp add: prod_eq_iff)
  have h3: "handle E s2 thread_info_doc = (Continue, s3)"
    unfolding s3_def s2_def s1_def E_def st0_def using thread_stream_steps(3) by (simp add: prod_eq_iff)
  have h4: "handle E s3 thread_data_doc
              = (Yield ((parsed_init (PStr ''none'') (PInt 7) (PFloat (1 / 4)))\<lparr>r_pid := Some (PInt 2)\<rparr>), s4)"
    unfolding s4_def s3_def s2_def s1_def E_def st0_def using thread_stream_steps(4) by (simp add: prod_eq_iff)
  have p4: "pid s4 = PInt 1"
    unfolding s4_def s3_def s2_def s1_def E_def st0_def using thread_stream_steps(6) by simp
  have dec: "bson_decode E linux_process_info_bytes = Some linux_process_info_doc"
    "bson_decode E linux_process_data_bytes = Some linux_process_data_doc"
    "bson_decode E thread_info_bytes = Some thread_info_doc"
    "bson_decode E thread_data_bytes = Some thread_data_doc"
    unfolding E_def by (rule ex_decode)+
  have i1: "iter E st0 (linux_process_info_bytes @ linux_process_data_bytes @ thread_info_bytes @ thread_data_bytes)
              = iter E s1 (linux_process_data_bytes @ thread_info_bytes @ thread_data_bytes)"
    using iter_continue [OF ex_frames(7) _ h1] dec(1) by simp
  have i2: "iter E s1 (linux_process_data_bytes @ thread_info_bytes @ thread_data_bytes)
              = ((parsed_init (PStr ''process'') (PInt 1) (PFloat 0))
                      \<lparr>r_pid := Some (PInt 1), r_ppid := Some (PInt 0),
                        r_first_seen := Some (PDatetime 1), r_process_name := Some (PUni ''ls'')\<rparr>
                   # fst (iter E s2 (thread_info_bytes @ thread_data_bytes)),
                 snd (iter E s2 (thread_info_bytes @ thread_data_bytes)))"
    using iter_yield [OF ex_frames(8) _ h2] dec(2) by simp
  have i3: "iter E s2 (thread_info_bytes @ thread_data_bytes) = iter E s3 thread_data_bytes"
    using iter_continue [OF ex_frames(9) _ h3] dec(3) by simp
  have i4: "iter E s3 thread_data_bytes
              = ([(parsed_init (PStr ''none'') (PInt 7) (PFloat (1 / 4)))\<lparr>r_pid := Some (PInt 2)\<rparr>],
                 Stopped EndOfStream, s4)"
    using iter_yield [OF ex_frames(10) [of "[]", unfolded append_Nil2] _ h4] dec(4)
    by (simp add: iter_end)
  show ?thesis
    unfolding E_def [symmetric] st0_def [symmetric] i1 i2 i3 i4
    by (simp add: parsed_init_def p4)
qed

theorem thread_pid_from_frame_witness:
  "call_frame (snd (handle (example_receiver example_table) (BsonParser_init None) thread_info_doc))
     thread_data_doc
     (PUni ''__thread__'', PList [PUni ''ProcessIdentifier''], [PUni ''ProcessIdentifier''],
      [DefaultConv], PNone)
     [(KText ''ProcessIdentifier'', PInt 2)]
   \<and> py_eq_str (PUni ''__thread__'') ''__thread__''
   \<and> handle (example_receiver example_table)
         (snd (handle (example_receiver example_table) (BsonParser_init None) thread_info_doc))
         thread_data_doc
       = (Yield ((msg_parsed thread_data_doc)\<lparr>r_pid := Some (PInt 2)\<rparr>),
          snd (handle (example_receiver example_table) (BsonParser_init None) thread_info_doc))"
proof -
  let ?E = "example_receiver example_table"
  let ?st = "snd (handle ?E (BsonParser_init None) thread_info_doc)"
  have cf: "call_frame ?st thread_data_doc
     (PUni ''__thread__'', PList [PUni ''ProcessIdentifier''], [PUni ''ProcessIdentifier''],
      [DefaultConv], PNone)
     [(KText ''ProcessIdentifier'', PInt 2)]"
    by (simp add: receiver_eval value_eval thread_info_doc_def thread_data_doc_def Let_def)
  have th: "py_eq_str (PUni ''__thread__'') ''__thread__''"
    by (simp add: value_eval)
  show ?thesis
    using thread_pid_from_frame [OF cf th, of ?E] cf th by simp
qed

section \<open>Receiver: api calls before any process message\<close>

text \<open>
  C10. An api-call message handled while the parser's \<open>pid\<close> is still the initial \<open>None\<close>
  is yielded, with \<open>None\<close> under \<open>pid\<close>; and in every stream decoded from the start, a record
  that has an \<open>api\<close> key and comes before any record with a \<open>first_seen\<close> key (only a
  process message sets one) has \<open>None\<close> under \<open>pid\<close>.
\<close>

theorem apicall_before_process_pid_None:
  "(call_frame st dec (apiname, arginfo, argnames, converters, category) argd
      \<and> \<not> py_eq_str apiname ''__process__'' \<and> \<not> py_eq_str apiname ''__thread__''
      \<and> py_key apiname = Some ak \<and> map_of (flags_value st) ak = None \<and> pid st = PNone
    \<longrightarrow> handle env st dec = (Yield (apicall_record st dec (msg_parsed dec) apiname category argd), st)
        \<and> r_pid (apicall_record st dec (msg_parsed dec) apiname category argd) = Some PNone)
   \<and> (fst (iter env (BsonParser_init sp) fd) = pre @ r # post
        \<and> (\<forall>x\<in>set pre. r_first_seen x = None) \<and> r_api r \<noteq> None
      \<longrightarrow> r_pid r = Some PNone)"
proof (intro conjI impI)
  assume a: "call_frame st dec (apiname, arginfo, argnames, converters, category) argd
      \<and> \<not> py_eq_str apiname ''__process__'' \<and> \<not> py_eq_str apiname ''__thread__''
      \<and> py_key apiname = Some ak \<and> map_of (flags_value st) ak = None \<and> pid st = PNone"
  then have cf: "call_frame st dec (apiname, arginfo, argnames, converters, category) argd" by blast
  show "handle env st dec = (Yield (apicall_record st dec (msg_parsed dec) apiname category argd), st)"
    unfolding handle_call_frame [OF cf] using a by (simp add: handle_apicall_def Let_def)
  show "r_pid (apicall_record st dec (msg_parsed dec) apiname category argd) = Some PNone"
    using a by simp
next
  assume b: "fst (iter env (BsonParser_init sp) fd) = pre @ r # post
        \<and> (\<forall>x\<in>set pre. r_first_seen x = None) \<and> r_api r \<noteq> None"
  have "pid (BsonParser_init sp) = PNone" by (simp add: BsonParser_init_def)
  from iter_pid_None [OF this] b show "r_pid r = Some PNone" by blast
qed

lemma createfile_steps:
  fixes E st0 s1
  defines "E \<equiv> example_receiver example_table"
    and "st0 \<equiv> BsonParser_init None"
    and "s1 \<equiv> snd (handle E st0 createfile_info_doc)"
  shows "fst (handle E st0 createfile_info_doc) = Continue"
    and "call_frame s1 createfile_data_doc
           (PUni ''CreateFileW'', PList [PUni ''is_success'', PUni ''retval'', PUni ''lpFileName''],
            [PUni ''is_success'', PUni ''retval'', PUni ''lpFileName''],
            [DefaultConv, DefaultConv, DefaultConv], PUni ''filesystem'')
           [(KText ''is_success'', PInt 1), (KText ''retval'', PInt 0),
            (KText ''lpFileName'', PUni [CHR 0x43, CHR 0x3a, CHR 0x5c, CHR 0x61, CHR 0x2e, CHR 0x74, CHR 0x78, CHR 0x74])]"
    and "flags_value s1 = []" and "pid s1 = PNone"
  unfolding E_def st0_def s1_def
  by (simp_all add: receiver_eval value_eval createfile_info_doc_def createfile_data_doc_def
        example_receiver_def Let_def)

theorem apicall_before_process_pid_None_witness:
  "fst (iter (example_receiver example_table) (BsonParser_init None)
          (createfile_info_bytes @ createfile_data_bytes))
     = [\<lparr>r_type = PStr ''apicall'', r_tid = PInt 1234, r_time = PFloat (1 / 2), r_message = None,
         r_pid = Some PNone, r_ppid = None, r_first_seen = None, r_process_name = None,
         r_api = Some (PUni ''CreateFileW''), r_category = Some (PUni ''filesystem''),
         r_status = Some (PInt 1), r_return_value = Some (PInt 0),
         r_arguments = Some [(KText ''lpFileName'',
            PUni [CHR 0x43, CHR 0x3a, CHR 0x5c, CHR 0x61, CHR 0x2e, CHR 0x74, CHR 0x78, CHR 0x74])],
         r_flags = Some [], r_stacktrace = Some (PList []), r_uniqhash = Some (PInt 0),
         r_last_error = None, r_nt_status = None\<rparr>]"
proof -
  define E where "E = example_receiver example_table"
  define st0 where "st0 = BsonParser_init None"
  define s1 where "s1 = snd (handle E st0 createfile_info_doc)"
  define argd where "argd = [(KText ''is_success'', PInt 1), (KText ''retval'', PInt 0),
            (KText ''lpFileName'', PUni [CHR 0x43, CHR 0x3a, CHR 0x5c, CHR 0x61, CHR 0x2e, CHR 0x74, CHR 0x78, CHR 0x74])]"
  define rec where "rec = apicall_record s1 createfile_data_doc (msg_parsed createfile_data_doc)
                            (PUni ''CreateFileW'') (PUni ''filesystem'') argd"
  have h1: "handle E st0 createfile_info_doc = (Continue, s1)"
    unfolding s1_def E_def st0_def using createfile_steps(1) by (simp add: prod_eq_iff)
  have cf: "call_frame s1 createfile_data_doc
           (PUni ''CreateFileW'', PList [PUni ''is_success'', PUni ''retval'', PUni ''lpFileName''],
            [PUni ''is_success'', PUni ''retval'', PUni ''lpFileName''],
            [DefaultConv, DefaultConv, DefaultConv], PUni ''filesystem'') argd"
    and fv: "map_of (flags_value s1) (KText ''CreateFileW'') = None" and p: "pid s1 = PNone"
    unfolding s1_def E_def st0_def argd_def using createfile_steps(2,3,4) by simp_all
  have nm: "\<not> py_eq_str (PUni ''CreateFileW'') ''__process__''"
    "\<not> py_eq_str (PUni ''CreateFileW'') ''__thread__''"
    "py_key (PUni ''CreateFileW'') = Some (KText ''CreateFileW'')"
    by (simp_all add: value_eval)
  have step: "handle E s1 createfile_data_doc = (Yield rec, s1) \<and> r_pid rec = Some PNone"
    unfolding rec_def
    using apicall_before_process_pid_None [THEN conjunct1, rule_format,
            of s1 createfile_data_doc "PUni ''CreateFileW''" _ _ _ "PUni ''filesystem''" argd
               "KText ''CreateFileW''" E]
      cf nm fv p by blast
  have dec: "bson_decode E createfile_info_bytes = Some createfile_info_doc"
    "bson_decode E createfile_data_bytes = Some createfile_data_doc"
    unfolding E_def by (rule ex_decode)+
  have "iter E st0 (createfile_info_bytes @ createfile_data_bytes) = iter E s1 createfile_data_bytes"
    using iter_continue [OF ex_frames(5) _ h1] dec(1) by simp
  also have "\<dots> = ([rec], Stopped EndOfStream, s1)"
    using iter_yield [OF ex_frames(6) [of "[]", unfolded append_Nil2] _ step [THEN conjunct1]] dec(2)
    by (simp add: iter_end)
  finally have it: "fst (iter E st0 (createfile_info_bytes @ createfile_data_bytes)) = [rec]" by simp
  have "r_api rec \<noteq> None" unfolding rec_def by simp
  with it have "r_pid rec = Some PNone"
    using apicall_before_process_pid_None [THEN conjunct2, rule_format,
            where env = E and sp = None and fd = "createfile_info_bytes @ createfile_data_bytes"
              and pre = "[]" and r = rec and post = "[]"]
    unfolding st0_def by simp
  have "rec = \<lparr>r_type = PStr ''apicall'', r_tid = PInt 1234, r_time = PFloat (1 / 2), r_message = None,
         r_pid = Some PNone, r_ppid = None, r_first_seen = None, r_process_name = None,
         r_api = Some (PUni ''CreateFileW''), r_category = Some (PUni ''filesystem''),
         r_status = Some (PInt 1), r_return_value = Some (PInt 0),
         r_arguments = Some [(KText ''lpFileName'',
            PUni [CHR 0x43, CHR 0x3a, CHR 0x5c, CHR 0x61, CHR 0x2e, CHR 0x74, CHR 0x78, CHR 0x74])],
         r_flags = Some [], r_stacktrace = Some (PList []), r_uniqhash = Some (PInt 0),
         r_last_error = None, r_nt_status = None\<rparr>"
    unfolding rec_def argd_def using p
    by (simp add: apicall_record_def msg_parsed_def parsed_init_def createfile_data_doc_def value_eval Let_def)
  with it show ?thesis unfolding E_def st0_def by simp
qed

section \<open>Receiver: flag tables\<close>

text \<open>
  C9. A call message for a name that has a \<open>flags_value\<close> table and no \<open>flags_bitmask\<close>
  table never yields and is never skipped: \<open>resolve_flags\<close> raises, and the exception
  leaves the iteration. When the loop over the value table, which runs first, completes,
  the exception is the \<open>KeyError\<close> of \<open>self.flags_bitmask[apiname]\<close>.
\<close>

theorem flags_without_bitmask_KeyError:
  assumes "call_frame st dec (apiname, arginfo, argnames, converters, category) argd"
    and "\<not> py_eq_str apiname ''__process__''" and "\<not> py_eq_str apiname ''__thread__''"
    and "py_key apiname = Some ak"
    and "map_of (flags_value st) ak = Some vtab"
    and "map_of (flags_bitmask st) ak = None"
  shows "(\<exists>e. handle env st dec = (Raise e, st))
         \<and> (\<forall>fd frame. read_frame fd = Inr frame \<and> bson_decode env (fst frame) = Some dec
               \<longrightarrow> (\<exists>e. iter env st fd = ([], Raised e, st)))
         \<and> ((\<forall>e. resolve_values env
                      (AList.delete (KText ''retval'') (AList.delete (KText ''is_success'') argd))
                      vtab [] \<noteq> Inl e)
              \<longrightarrow> handle env st dec = (Raise KeyError, st)
                  \<and> (\<forall>fd frame. read_frame fd = Inr frame \<and> bson_decode env (fst frame) = Some dec
                        \<longrightarrow> iter env st fd = ([], Raised KeyError, st)))"
proof -
  have h: "handle env st dec =
           (Raise (case resolve_values env
                          (AList.delete (KText ''retval'') (AList.delete (KText ''is_success'') argd))
                          vtab [] of
                     Inl e \<Rightarrow> e
                   | Inr fl \<Rightarrow> KeyError), st)"
    unfolding handle_call_frame [OF assms(1)]
    using assms(2-6)
    by (simp add: handle_apicall_def resolve_flags_def apicall_record_def Let_def split: sum.splits)
  then have a: "\<exists>e. handle env st dec = (Raise e, st)" by blast
  then have b: "\<forall>fd frame. read_frame fd = Inr frame \<and> bson_decode env (fst frame) = Some dec
               \<longrightarrow> (\<exists>e. iter env st fd = ([], Raised e, st))"
    using iter_raise by blast
  have c: "handle env st dec = (Raise KeyError, st)"
    if "\<forall>e. resolve_values env
                      (AList.delete (KText ''retval'') (AList.delete (KText ''is_success'') argd))
                      vtab [] \<noteq> Inl e"
    using h that by (simp split: sum.splits)
  then have d: "\<forall>fd frame. read_frame fd = Inr frame \<and> bson_decode env (fst frame) = Some dec
                  \<longrightarrow> iter env st fd = ([], Raised KeyError, st)"
    if "\<forall>e. resolve_values env
                      (AList.delete (KText ''retval'') (AList.delete (KText ''is_success'') argd))
                      vtab [] \<noteq> Inl e"
    using that iter_raise by blast
  show ?thesis using a b c d by blast
qed

lemma flags_steps:
  fixes E st0 s1
  defines "E \<equiv> example_receiver example_table"
    and "st0 \<equiv> BsonParser_init None"
    and "s1 \<equiv> snd (handle E st0 flags_info_doc)"
  shows "fst (handle E st0 flags_info_doc) = Continue"
    and "call_frame s1 flags_data_doc
           (PUni ''NtOpenFile'', PList [PUni ''access''], [PUni ''access''], [DefaultConv], PNone)
           [(KText ''access'', PInt 1)]"
    and "map_of (flags_value s1) (KText ''NtOpenFile'')
           = Some [(KText ''access'', [(KNum 1, PUni ''READ'')])]"
    and "map_of (flags_bitmask s1) (KText ''NtOpenFile'') = None"
  unfolding E_def st0_def s1_def
  by (simp_all add: receiver_eval value_eval flags_info_doc_def flags_data_doc_def
        example_receiver_def Let_def)

theorem flags_without_bitmask_KeyError_witness:
  "fst (handle (example_receiver example_table) (BsonParser_init None) flags_info_doc) = Continue
   \<and> fst (handle (example_receiver example_table)
            (snd (handle (example_receiver example_table) (BsonParser_init None) flags_info_doc))
            flags_data_doc)
       = Raise KeyError"
proof -
  define E where "E = example_receiver example_table"
  define s1 where "s1 = snd (handle E (BsonParser_init None) flags_info_doc)"
  note f = flags_steps [folded E_def, folded s1_def]
  have nm: "\<not> py_eq_str (PUni ''NtOpenFile'') ''__process__''"
    "\<not> py_eq_str (PUni ''NtOpenFile'') ''__thread__''"
    "py_key (PUni ''NtOpenFile'') = Some (KText ''NtOpenFile'')"
    by (simp_all add: value_eval)
  have "\<forall>e. resolve_values E
              (AList.delete (KText ''retval'') (AList.delete (KText ''is_success'') [(KText ''access'', PInt 1)]))
              [(KText ''access'', [(KNum 1, PUni ''READ'')])] [] \<noteq> Inl e"
    by (simp add: flag_value_def value_eval)
  then have "fst (handle E s1 flags_data_doc) = Raise KeyError"
    using flags_without_bitmask_KeyError [OF f(2) nm f(3) f(4), of E] by simp
  with f(1) show ?thesis unfolding s1_def E_def by simp
qed

section \<open>Receiver: how the iteration ends\<close>

text \<open>
  C2, as the code has it. The framing failures and a failing decoder end the iteration
  by a plain return, with the records yielded so far kept: no byte left, fewer than four
  length bytes, a declared length above the maximum, fewer bytes than declared. A
  \<open>__process__\<close> message whose arguments hold none of \<open>TimeLow\<close>, \<open>time_low\<close> and
  \<open>TimeStamp\<close> does not: line 290 raises \<open>CuckooResultError\<close>, which leaves the iteration.
\<close>

theorem fatal_conditions:
  "(fd = [] \<longrightarrow> iter env st fd = ([], Stopped EndOfStream, st))
   \<and> (0 < length fd \<and> length fd < 4 \<longrightarrow> iter env st fd = ([], Stopped LackingData, st))
   \<and> (4 \<le> length fd \<and> MAX_MESSAGE_LENGTH < unpack_I (take 4 fd)
        \<longrightarrow> iter env st fd = ([], Stopped TooLarge, st))
   \<and> (4 \<le> length fd \<and> unpack_I (take 4 fd) \<le> MAX_MESSAGE_LENGTH \<and> length fd < unpack_I (take 4 fd)
        \<longrightarrow> iter env st fd = ([], Stopped LackingData, st))
   \<and> (read_frame fd = Inr frame \<and> bson_decode env (fst frame) = None
        \<longrightarrow> iter env st fd = ([], Stopped DecodingProblem, st))
   \<and> (read_frame fd = Inr frame \<and> bson_decode env (fst frame) = Some dec
        \<and> call_frame st dec (apiname, arginfo, argnames, converters, category) argd
        \<and> py_eq_str apiname ''__process__''
        \<and> \<not> has_arg argd ''TimeLow'' \<and> \<not> has_arg argd ''time_low'' \<and> \<not> has_arg argd ''TimeStamp''
        \<longrightarrow> iter env st fd = ([], Raised CuckooResultError, st))"
proof (intro conjI impI)
  assume "fd = []"
  then show "iter env st fd = ([], Stopped EndOfStream, st)" by (simp add: iter_end)
next
  assume "0 < length fd \<and> length fd < 4"
  then have "read_frame fd = Inl LackingData"
    by (auto simp: read_frame_def fd_read_def Let_def)
  then show "iter env st fd = ([], Stopped LackingData, st)" by (subst iter_unfold) simp
next
  assume "4 \<le> length fd \<and> MAX_MESSAGE_LENGTH < unpack_I (take 4 fd)"
  then have "read_frame fd = Inl TooLarge"
    by (auto simp: read_frame_def fd_read_def Let_def)
  then show "iter env st fd = ([], Stopped TooLarge, st)" by (subst iter_unfold) simp
next
  assume a: "4 \<le> length fd \<and> unpack_I (take 4 fd) \<le> MAX_MESSAGE_LENGTH \<and> length fd < unpack_I (take 4 fd)"
  then have "4 < unpack_I (take 4 fd)" by simp
  with a have "read_frame fd = Inl LackingData"
    by (auto simp: read_frame_def fd_read_def Let_def)
  then show "iter env st fd = ([], Stopped LackingData, st)" by (subst iter_unfold) simp
next
  assume "read_frame fd = Inr frame \<and> bson_decode env (fst frame) = None"
  then show "iter env st fd = ([], Stopped DecodingProblem, st)" by (subst iter_unfold) simp
next
  assume a: "read_frame fd = Inr frame \<and> bson_decode env (fst frame) = Some dec
        \<and> call_frame st dec (apiname, arginfo, argnames, converters, category) argd
        \<and> py_eq_str apiname ''__process__''
        \<and> \<not> has_arg argd ''TimeLow'' \<and> \<not> has_arg argd ''time_low'' \<and> \<not> has_arg argd ''TimeStamp''"
  then have cf: "call_frame st dec (apiname, arginfo, argnames, converters, category) argd" by blast
  have "handle env st dec = (Raise CuckooResultError, st)"
    unfolding handle_call_frame [OF cf] using a
    by (simp add: handle_process_def process_fields_def)
  with a show "iter env st fd = ([], Raised CuckooResultError, st)"
    using iter_raise by blast
qed

lemma process_stream_steps:
  fixes E st0 s1
  defines "E \<equiv> example_receiver example_table"
    and "st0 \<equiv> BsonParser_init None"
    and "s1 \<equiv> snd (handle E st0 process_info_doc)"
  shows "fst (handle E st0 process_info_doc) = Continue"
    and "call_frame s1 index0_data_doc (PUni ''__process__'', PList [], [], [], PNone) []"
    and "fst (handle E s1 index0_data_doc) = Raise CuckooResultError"
    and "snd (handle E s1 index0_data_doc) = s1"
  unfolding E_def st0_def s1_def
  by (simp_all add: receiver_eval value_eval process_info_doc_def index0_data_doc_def
        example_receiver_def Let_def)

theorem unknown_process_layout_counterexample:
  "fst (snd (iter (example_receiver example_table) (BsonParser_init None)
               (process_info_bytes @ index0_data_bytes)))
     = Raised CuckooResultError"
proof -
  define E where "E = example_receiver example_table"
  define s1 where "s1 = snd (handle E (BsonParser_init None) process_info_doc)"
  note f = process_stream_steps [folded E_def, folded s1_def]
  have h1: "handle E (BsonParser_init None) process_info_doc = (Continue, s1)"
    using f(1) by (simp add: prod_eq_iff s1_def)
  have h2: "handle E s1 index0_data_doc = (Raise CuckooResultError, s1)"
    using f(3,4) by (simp add: prod_eq_iff)
  have dec: "bson_decode E process_info_bytes = Some process_info_doc"
    "bson_decode E index0_data_bytes = Some index0_data_doc"
    unfolding E_def by (rule ex_decode)+
  have "iter E (BsonParser_init None) (process_info_bytes @ index0_data_bytes) = iter E s1 index0_data_bytes"
    using iter_continue [OF ex_frames(3) _ h1] dec(1) by simp
  also have "\<dots> = ([], Raised CuckooResultError, s1)"
    using iter_raise [OF ex_frames(4) [of "[]", unfolded append_Nil2] _ h2] dec(2) by simp
  finally show ?thesis unfolding E_def by simp
qed

theorem fatal_conditions_witness:
  "iter (example_receiver example_table) (BsonParser_init None) [CHR 0x0c, CHR 0x00]
     = ([], Stopped LackingData, BsonParser_init None)
   \<and> iter (example_receiver example_table) (BsonParser_init None) [CHR 0x01, CHR 0x00, CHR 0x40, CHR 0x01]
     = ([], Stopped TooLarge, BsonParser_init None)
   \<and> iter (example_receiver example_table) (BsonParser_init None) [CHR 0x0c, CHR 0x00, CHR 0x00, CHR 0x00, CHR 0x10]
     = ([], Stopped LackingData, BsonParser_init None)
   \<and> iter (example_receiver example_table) (BsonParser_init None) [CHR 0x04, CHR 0x00, CHR 0x00, CHR 0x00]
     = ([], Stopped DecodingProblem, BsonParser_init None)
   \<and> iter (example_receiver example_table)
        (snd (handle (example_receiver example_table) (BsonParser_init None) process_info_doc))
        index0_data_bytes
     = ([], Raised CuckooResultError,
        snd (handle (example_receiver example_table) (BsonParser_init None) process_info_doc))"
proof -
  define E where "E = example_receiver example_table"
  define st0 where "st0 = BsonParser_init None"
  define s1 where "s1 = snd (handle E st0 process_info_doc)"
  note f = process_stream_steps [folded E_def, folded st0_def, folded s1_def]
  have a: "iter E st0 [CHR 0x0c, CHR 0x00] = ([], Stopped LackingData, st0)"
    using fatal_conditions [where fd = "[CHR 0x0c, CHR 0x00]" and env = E and st = st0] by simp
  have b: "iter E st0 [CHR 0x01, CHR 0x00, CHR 0x40, CHR 0x01] = ([], Stopped TooLarge, st0)"
    using fatal_conditions [where fd = "[CHR 0x01, CHR 0x00, CHR 0x40, CHR 0x01]" and env = E and st = st0]
    by (simp add: unpack_I_def MAX_MESSAGE_LENGTH_def)
  have c: "iter E st0 [CHR 0x0c, CHR 0x00, CHR 0x00, CHR 0x00, CHR 0x10] = ([], Stopped LackingData, st0)"
    using fatal_conditions [where fd = "[CHR 0x0c, CHR 0x00, CHR 0x00, CHR 0x00, CHR 0x10]" and env = E and st = st0]
    by (simp add: unpack_I_def MAX_MESSAGE_LENGTH_def)
  have rf: "read_frame [CHR 0x04, CHR 0x00, CHR 0x00, CHR 0x00] = Inr ([CHR 0x04, CHR 0x00, CHR 0x00, CHR 0x00], [])"
    using read_frame_append [of "[CHR 0x04, CHR 0x00, CHR 0x00, CHR 0x00]" "[]"]
    by (simp add: unpack_I_def MAX_MESSAGE_LENGTH_def)
  have nd: "bson_decode E [CHR 0x04, CHR 0x00, CHR 0x00, CHR 0x00] = None"
    by (simp add: E_def example_receiver_def example_table_def example_bytes)
  have d: "iter E st0 [CHR 0x04, CHR 0x00, CHR 0x00, CHR 0x00] = ([], Stopped DecodingProblem, st0)"
    using fatal_conditions [where fd = "[CHR 0x04, CHR 0x00, CHR 0x00, CHR 0x00]" and env = E and st = st0
        and frame = "([CHR 0x04, CHR 0x00, CHR 0x00, CHR 0x00], [])"] rf nd
    by simp
  have dec: "bson_decode E index0_data_bytes = Some index0_data_doc"
    unfolding E_def by (rule ex_decode)
  have na: "\<not> has_arg [] ''TimeLow''" "\<not> has_arg [] ''time_low''" "\<not> has_arg [] ''TimeStamp''"
    "py_eq_str (PUni ''__process__'') ''__process__''"
    by (simp_all add: has_arg_def value_eval)
  have e: "iter E s1 index0_data_bytes = ([], Raised CuckooResultError, s1)"
    using fatal_conditions [where fd = index0_data_bytes and env = E and st = s1
        and frame = "(index0_data_bytes, [])" and dec = index0_data_doc
        and apiname = "PUni ''__process__''" and arginfo = "PList []" and argnames = "[]"
        and converters = "[]" and category = PNone and argd = "[]"]
      ex_frames(4) [of "[]", unfolded append_Nil2] dec f(2) na
    by simp
  show ?thesis using a b c d e unfolding E_def st0_def s1_def by simp
qed

section \<open>Receiver: buffers and the layouts of a process message\<close>

text \<open>
  C3, as the code has it. A \<open>buffer\<close> message whose payload is a byte string never yields
  and never ends the iteration. When the checksum differs from the digest of the payload
  nothing is stored. When it matches, the payload is written once, to the file named by the
  digest under \<open>buffer\<close> in the storage path, provided the stream is the result server's
  handler; on any other stream a matching payload is not stored either.
\<close>

theorem buffer_integrity:
  assumes "py_eq_str (dget dec ''type'' (PStr ''none'')) ''buffer''"
    and "dget dec ''buffer'' PNone = PStr payload"
  shows "handle env st dec =
           (Continue,
            if py_eq_str (dget dec ''checksum'' PNone) (sha1_hexdigest env payload)
            then (case storagepath st of
                    None \<Rightarrow> st
                  | Some sp \<Rightarrow>
                      st\<lparr>written := written st @
                            [(os_path_join sp [''buffer'', sha1_hexdigest env payload], payload)]\<rparr>)
            else st)
         \<and> (\<forall>fd frame. read_frame fd = Inr frame \<and> bson_decode env (fst frame) = Some dec
               \<longrightarrow> iter env st fd = iter env (snd (handle env st dec)) (snd frame))"
proof -
  from assms(1) have ni: "\<not> py_eq_str (dget dec ''type'' (PStr ''none'')) ''info''"
    by (auto simp: py_eq_str_def)
  have h: "handle env st dec =
           (Continue,
            if py_eq_str (dget dec ''checksum'' PNone) (sha1_hexdigest env payload)
            then (case storagepath st of
                    None \<Rightarrow> st
                  | Some sp \<Rightarrow>
                      st\<lparr>written := written st @
                            [(os_path_join sp [''buffer'', sha1_hexdigest env payload], payload)]\<rparr>)
            else st)"
    using assms ni
    by (simp add: handle_def handle_buffer_def buffer_bytes_def Let_def split: option.splits)
  then have "handle env st dec = (Continue, snd (handle env st dec))" by simp
  then show ?thesis using h iter_continue by metis
qed

theorem buffer_integrity_witness:
  "handle (example_receiver example_table) (BsonParser_init (Some ''/storage'')) buffer_ok_doc
     = (Continue, (BsonParser_init (Some ''/storage''))
          \<lparr>written := [(''/storage/buffer/da39a3ee5e6b4b0d3255bfef95601890afd80709'', [])]\<rparr>)
   \<and> handle (example_receiver example_table) (BsonParser_init (Some ''/storage'')) buffer_bad_doc
     = (Continue, BsonParser_init (Some ''/storage''))"
proof -
  let ?E = "example_receiver example_table"
  let ?st = "BsonParser_init (Some ''/storage'')"
  have t: "py_eq_str (dget buffer_ok_doc ''type'' (PStr ''none'')) ''buffer''"
    "py_eq_str (dget buffer_bad_doc ''type'' (PStr ''none'')) ''buffer''"
    by (simp_all add: buffer_ok_doc_def buffer_bad_doc_def value_eval)
  have b: "dget buffer_ok_doc ''buffer'' PNone = PStr []" "dget buffer_bad_doc ''buffer'' PNone = PStr []"
    by (simp_all add: buffer_ok_doc_def buffer_bad_doc_def value_eval)
  have ok: "py_eq_str (dget buffer_ok_doc ''checksum'' PNone) (sha1_hexdigest ?E [])"
    and bad: "\<not> py_eq_str (dget buffer_bad_doc ''checksum'' PNone) (sha1_hexdigest ?E [])"
    by (simp_all add: buffer_ok_doc_def buffer_bad_doc_def example_receiver_def sha1_empty_def value_eval)
  have p: "os_path_join ''/storage'' [''buffer'', sha1_hexdigest ?E []]
             = ''/storage/buffer/da39a3ee5e6b4b0d3255bfef95601890afd80709''"
    by (simp add: os_path_join_def join2_def example_receiver_def sha1_empty_def)
  have sp: "storagepath ?st = Some ''/storage''" "written ?st = []"
    by (simp_all add: BsonParser_init_def)
  show ?thesis
    using buffer_integrity [OF t(1) b(1), of ?E ?st, THEN conjunct1]
          buffer_integrity [OF t(2) b(2), of ?E ?st, THEN conjunct1]
    by (simp only: ok bad p sp if_True if_False option.case append_Nil simp_thms)
qed

theorem buffer_not_stored_counterexample:
  "py_eq_str (dget buffer_ok_doc ''type'' (PStr ''none'')) ''buffer''
   \<and> dget buffer_ok_doc ''buffer'' PNone = PStr []
   \<and> py_eq_str (dget buffer_ok_doc ''checksum'' PNone)
        (sha1_hexdigest (example_receiver example_table) [])
   \<and> handle (example_receiver example_table) (BsonParser_init None) buffer_ok_doc
        = (Continue, BsonParser_init None)
   \<and> written (BsonParser_init None) = []"
  by (simp add: receiver_eval value_eval buffer_ok_doc_def example_receiver_def sha1_empty_def Let_def)

text \<open>
  C8. Two \<open>__process__\<close> messages, one whose argument dictionary has the PascalCase keys
  and one that has the snake_case keys (and no \<open>TimeLow\<close>) with the same values, are
  handled alike: both raise the same exception, or both yield a record of type
  \<open>process\<close> with the same \<open>pid\<close>, \<open>ppid\<close>, \<open>first_seen\<close> and \<open>process_name\<close> and set the
  parser's \<open>pid\<close> to the same value. When the two messages also agree on \<open>T\<close>, \<open>t\<close> and
  \<open>type\<close> the two results are equal.
\<close>

theorem process_layouts_agree:
  assumes "call_frame st dec1 (name1, arginfo1, argnames1, converters1, category1) argd1"
    and "call_frame st dec2 (name2, arginfo2, argnames2, converters2, category2) argd2"
    and "py_eq_str name1 ''__process__''" and "py_eq_str name2 ''__process__''"
    and "map_of argd1 (KText ''TimeLow'') = Some timelow"
    and "map_of argd1 (KText ''TimeHigh'') = Some timehigh"
    and "map_of argd1 (KText ''ProcessIdentifier'') = Some p"
    and "map_of argd1 (KText ''ParentProcessIdentifier'') = Some pp"
    and "map_of argd1 (KText ''ModulePath'') = Some modulepath"
    and "map_of argd2 (KText ''TimeLow'') = None"
    and "map_of argd2 (KText ''time_low'') = Some timelow"
    and "map_of argd2 (KText ''time_high'') = Some timehigh"
    and "map_of argd2 (KText ''pid'') = Some p"
    and "map_of argd2 (KText ''ppid'') = Some pp"
    and "map_of argd2 (KText ''module_path'') = Some modulepath"
  shows "handle env st dec1 = process_outcome env st (msg_parsed dec1) timelow timehigh p pp modulepath
       \<and> handle env st dec2 = process_outcome env st (msg_parsed dec2) timelow timehigh p pp modulepath
       \<and> (msg_parsed dec1 = msg_parsed dec2 \<longrightarrow> handle env st dec1 = handle env st dec2)"
proof -
  have 1: "handle env st dec1 = process_outcome env st (msg_parsed dec1) timelow timehigh p pp modulepath"
    unfolding handle_call_frame [OF assms(1)] process_outcome_def
    using assms(3,5-9)
    by (simp add: handle_process_def process_fields_def has_arg_def get_arg_def andthen_def
          split: sum.splits)
  have 2: "handle env st dec2 = process_outcome env st (msg_parsed dec2) timelow timehigh p pp modulepath"
    unfolding handle_call_frame [OF assms(2)] process_outcome_def
    using assms(4,10-15)
    by (simp add: handle_process_def process_fields_def has_arg_def get_arg_def andthen_def
          split: sum.splits)
  show ?thesis using 1 2 by simp
qed

lemma layout_steps:
  fixes E s1 s2
  defines "E \<equiv> example_receiver example_table"
    and "s1 \<equiv> snd (handle E (BsonParser_init None) pascal_info_doc)"
    and "s2 \<equiv> snd (handle E s1 snake_info_doc)"
  shows "call_frame s2 pascal_data_doc
           (PUni ''__process__'',
            PList [PUni ''TimeLow'', PUni ''TimeHigh'', PUni ''ProcessIdentifier'',
                   PUni ''ParentProcessIdentifier'', PUni ''ModulePath''],
            [PUni ''TimeLow'', PUni ''TimeHigh'', PUni ''ProcessIdentifier'',
             PUni ''ParentProcessIdentifier'', PUni ''ModulePath''],
            [DefaultConv, DefaultConv, DefaultConv, DefaultConv, DefaultConv], PNone)
           [(KText ''TimeLow'', PInt 10000000), (KText ''TimeHigh'', PInt 0),
            (KText ''ProcessIdentifier'', PInt 4), (KText ''ParentProcessIdentifier'', PInt 1),
            (KText ''ModulePath'', PUni ''a.exe'')]"
    and "call_frame s2 snake_data_doc
           (PUni ''__process__'',
            PList [PUni ''time_low'', PUni ''time_high'', PUni ''pid'', PUni ''ppid'', PUni ''module_path''],
            [PUni ''time_low'', PUni ''time_high'', PUni ''pid'', PUni ''ppid'', PUni ''module_path''],
            [DefaultConv, DefaultConv, DefaultConv, DefaultConv, DefaultConv], PNone)
           [(KText ''time_low'', PInt 10000000), (KText ''time_high'', PInt 0),
            (KText ''pid'', PInt 4), (KText ''ppid'', PInt 1),
            (KText ''module_path'', PUni ''a.exe'')]"
    and "msg_parsed pascal_data_doc = msg_parsed snake_data_doc"
  unfolding E_def s1_def s2_def
  by (simp_all add: receiver_eval value_eval pascal_info_doc_def snake_info_doc_def
        pascal_data_doc_def snake_data_doc_def example_receiver_def Let_def)

theorem process_layouts_agree_witness:
  "handle (example_receiver example_table)
     (snd (handle (example_receiver example_table)
        (snd (handle (example_receiver example_table) (BsonParser_init None) pascal_info_doc))
        snake_info_doc))
     pascal_data_doc
   = handle (example_receiver example_table)
     (snd (handle (example_receiver example_table)
        (snd (handle (example_receiver example_table) (BsonParser_init None) pascal_info_doc))
        snake_info_doc))
     snake_data_doc
   \<and> fst (handle (example_receiver example_table)
     (snd (handle (example_receiver example_table)
        (snd (handle (example_receiver example_table) (BsonParser_init None) pascal_info_doc))
        snake_info_doc))
     snake_data_doc)
   = Yield ((parsed_init (PStr ''process'') (PInt 9) (PFloat (1 / 2)))
              \<lparr>r_pid := Some (PInt 4), r_ppid := Some (PInt 1),
                r_first_seen := Some (PDatetime (- 11644473599)),
                r_process_name := Some (PUni ''a.exe'')\<rparr>)"
proof -
  define E where "E = example_receiver example_table"
  define s1 where "s1 = snd (handle E (BsonParser_init None) pascal_info_doc)"
  define s2 where "s2 = snd (handle E s1 snake_info_doc)"
  note f = layout_steps [folded E_def, folded s1_def, folded s2_def]
  have nm: "py_eq_str (PUni ''__process__'') ''__process__''" by (simp add: value_eval)
  note t = process_layouts_agree [OF f(1) f(2) nm nm, of "PInt 10000000" "PInt 0" "PInt 4" "PInt 1"
      "PUni ''a.exe''" E, simplified]
  have o: "fst (process_outcome E s2 (msg_parsed snake_data_doc) (PInt 10000000) (PInt 0) (PInt 4)
             (PInt 1) (PUni ''a.exe''))
           = Yield ((parsed_init (PStr ''process'') (PInt 9) (PFloat (1 / 2)))
              \<lparr>r_pid := Some (PInt 4), r_ppid := Some (PInt 1),
                r_first_seen := Some (PDatetime (- 11644473599)),
                r_process_name := Some (PUni ''a.exe'')\<rparr>)"
    by (simp add: process_outcome_def filetime_def andthen_def int_of_def num_of_def E_def
          example_receiver_def msg_parsed_def parsed_init_def snake_data_doc_def dget_def)
  show ?thesis
    unfolding E_def [symmetric] s1_def [symmetric] s2_def [symmetric]
    using t f(3) o by simp
qed

section \<open>Sender: the frames of a connection\<close>

lemma send_doc_effect:
  assumes "send_doc env s buf = (e, sent, s')"
  shows "logtbl_explained s' = logtbl_explained s" and "start s' = start s"
    and "sent = [] \<or> sent = [buf]"
  using assms
  by (auto simp: send_doc_def split: sum.splits prod.splits option.splits)

lemma info_doc_props:
  "is_info [(''I'', PInt index), (''name'', n), (''type'', PStr ''info''), (''category'', c), (''args'', a)]"
  "frame_index [(''I'', PInt index), (''name'', n), (''type'', PStr ''info''), (''category'', c), (''args'', a)]
     = Some (PInt index)"
  by (simp_all add: is_info_def frame_index_def)

lemma data_doc_props:
  "\<not> is_info [(''I'', PInt index), (''T'', p), (''t'', t), (''args'', a)]"
  "frame_index [(''I'', PInt index), (''T'', p), (''t'', t), (''args'', a)] = Some (PInt index)"
  by (simp_all add: is_info_def frame_index_def)

lemma loq_explain_effect:
  assumes "loq_explain env s index name fmt args = (e, sent, s1, val)"
  shows "logtbl_explained s1 = explained (logtbl_explained s) index"
    and "start s1 = start s"
    and "sent = [] \<or> (\<exists>d. sent = [d] \<and> info_for index d
                           \<and> py_nth (logtbl_explained s) index = Some 0)"
proof -
  show "logtbl_explained s1 = explained (logtbl_explained s) index"
    using assms
    by (auto simp: loq_explain_def explained_def Let_def send_doc_def
             split: option.splits if_splits prod.splits sum.splits)
  show "start s1 = start s"
    using assms
    by (auto simp: loq_explain_def Let_def send_doc_def
             split: option.splits if_splits prod.splits sum.splits)
  show "sent = [] \<or> (\<exists>d. sent = [d] \<and> info_for index d
                           \<and> py_nth (logtbl_explained s) index = Some 0)"
    using assms
    by (auto simp: loq_explain_def Let_def send_doc_def info_for_def info_doc_props py_nth_def
             split: option.splits if_splits prod.splits sum.splits)
qed

lemma loq_effect:
  assumes "loq env s now index name is_success return_value fmt args = (e, sent, s')"
  shows "logtbl_explained s' = explained (logtbl_explained s) index"
    and "\<exists>info data. sent = info @ data
           \<and> (info = [] \<or> (\<exists>d. info = [d] \<and> info_for index d
                                \<and> py_nth (logtbl_explained s) index = Some 0))
           \<and> (data = [] \<or> (\<exists>d. data = [d] \<and> data_for index d))"
proof -
  obtain e1 sent1 s1 val where x: "loq_explain env s index name fmt args = (e1, sent1, s1, val)"
    by (cases "loq_explain env s index name fmt args") auto
  note fx = loq_explain_effect [OF x]
  have tbl: "logtbl_explained s' = logtbl_explained s1"
    and snt: "\<exists>data. sent = sent1 @ data \<and> (data = [] \<or> (\<exists>d. data = [d] \<and> data_for index d))"
    using assms unfolding loq_def x
    by (auto simp: send_doc_def data_for_def data_doc_props
             split: option.splits if_splits prod.splits sum.splits)
  show "logtbl_explained s' = explained (logtbl_explained s) index" using tbl fx(1) by simp
  from snt obtain data where d: "sent = sent1 @ data" "data = [] \<or> (\<exists>d. data = [d] \<and> data_for index d)"
    by blast
  with fx(3) show "\<exists>info data. sent = info @ data
           \<and> (info = [] \<or> (\<exists>d. info = [d] \<and> info_for index d
                                \<and> py_nth (logtbl_explained s) index = Some 0))
           \<and> (data = [] \<or> (\<exists>d. data = [d] \<and> data_for index d))"
    by blast
qed

lemma emit_call_effect:
  assumes "emit_call env s c = (e, sent, s')"
  shows "logtbl_explained s' = explained (logtbl_explained s) (emit_index c)"
    and "\<exists>info data. sent = info @ data
           \<and> (info = [] \<or> (\<exists>d. info = [d] \<and> info_for (emit_index c) d
                                \<and> py_nth (logtbl_explained s) (emit_index c) = Some 0))
           \<and> (data = [] \<or> (\<exists>d. data = [d] \<and> data_for (emit_index c) d))"
proof -
  show "logtbl_explained s' = explained (logtbl_explained s) (emit_index c)"
  proof (cases c)
    case (Loq now index name a b fmt args)
    with assms loq_effect(1) show ?thesis by simp
  next
    case (NewProcess now ms p pp path)
    with assms have "loq env (s\<lparr>self_pid := p\<rparr>) now 511 ''__process__'' (PInt 1) (PInt 0)
           (log_convert_types [PStr ''TimeStamp'', PInt ms, PStr ''ProcessIdentifier'', p,
                       PStr ''ParentProcessIdentifier'', pp, PStr ''ModulePath'', path])
           [PStr ''TimeStamp'', PInt ms, PStr ''ProcessIdentifier'', p,
                       PStr ''ParentProcessIdentifier'', pp, PStr ''ModulePath'', path] = (e, sent, s')"
      by (simp add: log_new_process_def Let_def)
    from loq_effect(1) [OF this] NewProcess show ?thesis by simp
  qed
  show "\<exists>info data. sent = info @ data
           \<and> (info = [] \<or> (\<exists>d. info = [d] \<and> info_for (emit_index c) d
                                \<and> py_nth (logtbl_explained s) (emit_index c) = Some 0))
           \<and> (data = [] \<or> (\<exists>d. data = [d] \<and> data_for (emit_index c) d))"
  proof (cases c)
    case (Loq now index name a b fmt args)
    with assms loq_effect(2) show ?thesis by simp
  next
    case (NewProcess now ms p pp path)
    with assms have "loq env (s\<lparr>self_pid := p\<rparr>) now 511 ''__process__'' (PInt 1) (PInt 0)
           (log_convert_types [PStr ''TimeStamp'', PInt ms, PStr ''ProcessIdentifier'', p,
                       PStr ''ParentProcessIdentifier'', pp, PStr ''ModulePath'', path])
           [PStr ''TimeStamp'', PInt ms, PStr ''ProcessIdentifier'', p,
                       PStr ''ParentProcessIdentifier'', pp, PStr ''ModulePath'', path] = (e, sent, s')"
      by (simp add: log_new_process_def Let_def)
    from loq_effect(2) [OF this] NewProcess show ?thesis by simp
  qed
qed

lemma py_index_less: "py_index tbl i = Some k \<Longrightarrow> k < length tbl"
  unfolding py_index_def by (simp split: if_splits)

lemma py_index_update [simp]: "py_index (tbl[k := v]) i = py_index tbl i"
  by (simp add: py_index_def)

lemma explained_cases:
  "explained tbl i0 = tbl
   \<or> (\<exists>k. py_index tbl i0 = Some k \<and> tbl ! k = 0 \<and> explained tbl i0 = tbl[k := 1])"
  unfolding explained_def by (cases "py_index tbl i0") simp_all

lemma py_nth_explained_other:
  assumes "py_nth tbl i \<noteq> Some 0"
  shows "py_nth (explained tbl i0) i \<noteq> Some 0"
proof -
  consider "explained tbl i0 = tbl"
    | k where "py_index tbl i0 = Some k" "tbl ! k = 0" "explained tbl i0 = tbl[k := 1]"
    using explained_cases [of tbl i0] by blast
  then show ?thesis
  proof cases
  case 1
  with assms show ?thesis by simp
next
  case (2 k)
  show ?thesis
  proof (cases "py_index tbl i")
    case None
    then show ?thesis unfolding 2(3) py_nth_def by simp
  next
    case (Some j)
    from py_index_less [OF Some] have j: "j < length tbl" .
    from assms Some have "tbl ! j \<noteq> 0" by (simp add: py_nth_def)
    then have "(tbl[k := 1]) ! j \<noteq> 0" using j by (cases "j = k") simp_all
    then show ?thesis unfolding 2(3) py_nth_def using Some by simp
  qed
qed
qed

lemma py_nth_explained_self: "py_nth (explained tbl i0) i0 \<noteq> Some 0"
proof (cases "py_index tbl i0")
  case None
  then show ?thesis by (simp add: explained_def py_nth_def)
next
  case (Some k)
  from py_index_less [OF Some] have k: "k < length tbl" .
  show ?thesis
  proof (cases "tbl ! k = 0")
    case True
    then have "explained tbl i0 = tbl[k := 1]" using Some by (simp add: explained_def)
    then show ?thesis using Some k by (simp add: py_nth_def)
  next
    case False
    then have "explained tbl i0 = tbl" using Some by (simp add: explained_def)
    then show ?thesis using Some False by (simp add: py_nth_def)
  qed
qed

lemma explained_shape:
  "length (explained tbl i0) = length tbl"
  "set tbl \<subseteq> {0, 1} \<Longrightarrow> set (explained tbl i0) \<subseteq> {0, 1}"
proof -
  show "length (explained tbl i0) = length tbl"
    using explained_cases [of tbl i0] by auto
  assume s: "set tbl \<subseteq> {0, 1}"
  have "set (tbl[k := 1]) \<subseteq> {0, 1}" for k
    using set_update_subset_insert [of tbl k 1] s by blast
  then have "explained tbl i0 = tbl[k := 1] \<Longrightarrow> set (explained tbl i0) \<subseteq> {0, 1}" for k
    by simp
  then show "set (explained tbl i0) \<subseteq> {0, 1}"
    using explained_cases [of tbl i0] s by metis
qed

lemma trace_inv_mark:
  assumes "trace_inv tbl tr"
  shows "trace_inv (explained tbl i0) tr"
proof -
  from assms have a: "length tbl = 512" "set tbl \<subseteq> {0, 1}"
    and c: "\<forall>d\<in>set tr. \<forall>i. frame_index d = Some (PInt i) \<longrightarrow> py_nth tbl i \<noteq> Some 0"
    and d: "\<forall>i. length (filter (info_for i) tr) \<le> 1"
    and e: "\<forall>i pre d post. tr = pre @ d # post \<and> info_for i d \<longrightarrow> (\<forall>x\<in>set pre. \<not> data_for i x)"
    unfolding trace_inv_def by blast+
  have c': "\<forall>d\<in>set tr. \<forall>i. frame_index d = Some (PInt i) \<longrightarrow> py_nth (explained tbl i0) i \<noteq> Some 0"
    using c py_nth_explained_other by blast
  show ?thesis
    unfolding trace_inv_def
    using a explained_shape [of tbl i0] c' d e by simp
qed

lemma snoc_split:
  assumes "tr @ [x] = pre @ d # post"
  shows "(post = [] \<and> d = x \<and> pre = tr) \<or> (\<exists>post'. post = post' @ [x] \<and> tr = pre @ d # post')"
proof (cases post rule: rev_cases)
  case Nil
  with assms show ?thesis by simp
next
  case (snoc post' y)
  with assms have "tr @ [x] = (pre @ d # post') @ [y]" by simp
  then have "tr = pre @ d # post'" "x = y" by simp_all
  with snoc show ?thesis by simp
qed

lemma trace_inv_data:
  assumes "trace_inv tbl tr" and "data_for i0 x" and "py_nth tbl i0 \<noteq> Some 0"
  shows "trace_inv tbl (tr @ [x])"
proof -
  from assms(2) have nx: "\<not> info_for i x" for i by (simp add: data_for_def info_for_def)
  from assms(2) have ix: "frame_index x = Some (PInt i0)" by (simp add: data_for_def)
  have c: "\<forall>d\<in>set (tr @ [x]). \<forall>i. frame_index d = Some (PInt i) \<longrightarrow> py_nth tbl i \<noteq> Some 0"
    using assms(1,3) ix unfolding trace_inv_def by auto
  have d: "\<forall>i. length (filter (info_for i) (tr @ [x])) \<le> 1"
    using assms(1) nx unfolding trace_inv_def by simp
  have e: "\<forall>i pre d post. tr @ [x] = pre @ d # post \<and> info_for i d \<longrightarrow> (\<forall>y\<in>set pre. \<not> data_for i y)"
  proof (intro allI impI)
    fix i pre d post
    assume a: "tr @ [x] = pre @ d # post \<and> info_for i d"
    from snoc_split [of tr x pre d post] a nx
    obtain post' where "tr = pre @ d # post'" by blast
    with assms(1) a show "\<forall>y\<in>set pre. \<not> data_for i y" unfolding trace_inv_def by blast
  qed
  from assms(1) c d e show ?thesis unfolding trace_inv_def by blast
qed

lemma trace_inv_info:
  assumes "trace_inv tbl tr" and "info_for i0 x" and "py_nth tbl i0 = Some 0"
  shows "trace_inv (explained tbl i0) (tr @ [x])"
proof -
  from assms(2) have ix: "frame_index x = Some (PInt i0)" by (simp add: info_for_def)
  have none: "\<forall>d\<in>set tr. frame_index d \<noteq> Some (PInt i0)"
    using assms(1,3) unfolding trace_inv_def by blast
  then have nf: "filter (info_for i0) tr = []" and nd: "\<forall>y\<in>set tr. \<not> data_for i0 y"
    by (auto simp: filter_empty_conv info_for_def data_for_def)
  have other: "i \<noteq> i0 \<Longrightarrow> \<not> info_for i x" for i using ix by (simp add: info_for_def)
  note m = trace_inv_mark [OF assms(1), of i0]
  have c: "\<forall>d\<in>set (tr @ [x]). \<forall>i. frame_index d = Some (PInt i) \<longrightarrow> py_nth (explained tbl i0) i \<noteq> Some 0"
    using m ix py_nth_explained_self [of tbl i0] unfolding trace_inv_def by auto
  have d: "\<forall>i. length (filter (info_for i) (tr @ [x])) \<le> 1"
  proof
    fix i
    show "length (filter (info_for i) (tr @ [x])) \<le> 1"
    proof (cases "i = i0")
      case True
      then show ?thesis using nf by simp
    next
      case False
      then show ?thesis using other assms(1) unfolding trace_inv_def by simp
    qed
  qed
  have e: "\<forall>i pre d post. tr @ [x] = pre @ d # post \<and> info_for i d \<longrightarrow> (\<forall>y\<in>set pre. \<not> data_for i y)"
  proof (intro allI impI)
    fix i pre d post
    assume a: "tr @ [x] = pre @ d # post \<and> info_for i d"
    from snoc_split [of tr x pre d post] a
    consider "d = x" "pre = tr" | post' where "tr = pre @ d # post'" by blast
    then show "\<forall>y\<in>set pre. \<not> data_for i y"
    proof cases
      case 1
      with a other have "i = i0" by blast
      with 1 nd show ?thesis by simp
    next
      case 2
      with assms(1) a show ?thesis unfolding trace_inv_def by blast
    qed
  qed
  from m c d e show ?thesis unfolding trace_inv_def by blast
qed

lemma trace_inv_call:
  assumes "trace_inv (logtbl_explained s) tr" and "emit_call env s c = (e, sent, s')"
  shows "trace_inv (logtbl_explained s') (tr @ sent)"
proof -
  define i0 where "i0 = emit_index c"
  define tbl where "tbl = logtbl_explained s"
  note fx = emit_call_effect [OF assms(2), folded i0_def tbl_def]
  from fx(2) obtain info data where sd: "sent = info @ data"
    and i: "info = [] \<or> (\<exists>d. info = [d] \<and> info_for i0 d \<and> py_nth tbl i0 = Some 0)"
    and d: "data = [] \<or> (\<exists>d. data = [d] \<and> data_for i0 d)" by blast
  have a: "trace_inv (explained tbl i0) (tr @ info)"
  proof (cases "info = []")
    case True
    then show ?thesis using trace_inv_mark assms(1) tbl_def by simp
  next
    case False
    with i obtain x where "info = [x]" "info_for i0 x" "py_nth tbl i0 = Some 0" by blast
    then show ?thesis using trace_inv_info assms(1) tbl_def by simp
  qed
  have "trace_inv (explained tbl i0) ((tr @ info) @ data)"
  proof (cases "data = []")
    case True
    then show ?thesis using a by simp
  next
    case False
    with d obtain x where "data = [x]" "data_for i0 x" by blast
    then show ?thesis using trace_inv_data [OF a _ py_nth_explained_self] by simp
  qed
  then show ?thesis unfolding fx(1) sd by simp
qed

lemma trace_inv_all:
  "trace_inv (logtbl_explained s) tr \<Longrightarrow>
   trace_inv (logtbl_explained (snd (emit_all env s cs))) (tr @ fst (emit_all env s cs))"
proof (induction cs arbitrary: s tr)
  case Nil
  then show ?case by simp
next
  case (Cons c cs)
  obtain e sent s1 where c: "emit_call env s c = (e, sent, s1)" by (cases "emit_call env s c") auto
  obtain sent' s2 where r: "emit_all env s1 cs = (sent', s2)" by (cases "emit_all env s1 cs") auto
  from trace_inv_call [OF Cons.prems c] have "trace_inv (logtbl_explained s1) (tr @ sent)" .
  from Cons.IH [OF this] r have "trace_inv (logtbl_explained s2) ((tr @ sent) @ sent')" by simp
  then show ?case using c r by simp
qed

lemma trace_inv_init: "trace_inv (replicate 512 0) []"
  by (auto simp: trace_inv_def)

text \<open>
  C1. On a connection whose table starts with 512 zero entries, whatever the calls and
  whichever of them raise: each index has at most one info frame among the frames
  written; an info frame for an index has no data frame for that index before it; and
  when a data frame has been written for an index the table has (\<open>-512 \<le> i < 512\<close>), that
  index is marked as explained.
\<close>

theorem info_frame_once_and_first:
  assumes "logtbl_explained s = replicate 512 0"
  shows "length (filter (info_for i) (fst (emit_all env s calls))) \<le> 1
       \<and> (\<forall>pre d post. fst (emit_all env s calls) = pre @ d # post \<and> info_for i d
             \<longrightarrow> (\<forall>x\<in>set pre. \<not> data_for i x))
       \<and> (\<forall>d\<in>set (fst (emit_all env s calls)). data_for i d \<and> - 512 \<le> i \<and> i < 512
             \<longrightarrow> py_nth (logtbl_explained (snd (emit_all env s calls))) i = Some 1)"
proof -
  define tr where "tr = fst (emit_all env s calls)"
  define tbl where "tbl = logtbl_explained (snd (emit_all env s calls))"
  have "trace_inv (logtbl_explained s) []" unfolding assms by (rule trace_inv_init)
  from trace_inv_all [OF this, of env calls] have inv: "trace_inv tbl tr"
    unfolding tr_def tbl_def by simp
  then have len: "length tbl = 512" and bits: "set tbl \<subseteq> {0, 1}"
    and c: "\<forall>d\<in>set tr. \<forall>i. frame_index d = Some (PInt i) \<longrightarrow> py_nth tbl i \<noteq> Some 0"
    and d: "\<forall>i. length (filter (info_for i) tr) \<le> 1"
    and e: "\<forall>i pre d post. tr = pre @ d # post \<and> info_for i d \<longrightarrow> (\<forall>x\<in>set pre. \<not> data_for i x)"
    unfolding trace_inv_def by blast+
  have m: "py_nth tbl i = Some 1" if x: "x \<in> set tr" "data_for i x" "- 512 \<le> i" "i < 512" for x
  proof -
    have "py_index tbl i \<noteq> None" using x(3,4) len by (simp add: py_index_def)
    then obtain k where k: "py_index tbl i = Some k" by blast
    from py_index_less [OF k] have "tbl ! k \<in> set tbl" by simp
    with bits have v: "tbl ! k = 0 \<or> tbl ! k = 1" by blast
    from c x(1,2) have "py_nth tbl i \<noteq> Some 0" by (auto simp: data_for_def)
    with k v show ?thesis by (auto simp: py_nth_def)
  qed
  show ?thesis
    unfolding tr_def [symmetric] tbl_def [symmetric]
    using d e m by blast
qed

lemma log_raw_direct_whole:
  "plan sk = [] \<Longrightarrow> buf \<noteq> [] \<Longrightarrow> log_raw_direct sk buf = (None, sk\<lparr>wire := wire sk @ buf\<rparr>)"
  unfolding log_raw_direct_def
  by (subst log_raw_loop.simps, simp add: sock_send_def, subst log_raw_loop.simps, simp)

lemmas sender_eval =
  loq_def loq_explain_def send_doc_def resolve_category_def example_sender_def
  example_logger_def example_calls_def ResultLogger_init_def py_index_def py_nth_def get_key_def
  get_value_def SOCKET_SYSCALL_FILESYSTEM_NAMES_def SOCKET_SYSCALL_PROCESS_NAMES_def ascii_def
  log_raw_direct_whole

lemma example_trace:
  "fst (emit_all example_sender example_logger example_calls) =
     [[(''I'', PInt 5), (''name'', PStr ''open''), (''type'', PStr ''info''),
       (''category'', PStr ''filesystem''),
       (''args'', PList [PStr ''is_success'', PStr ''retval'', PUni ''filename''])],
      [(''I'', PInt 5), (''T'', PInt (- 1)), (''t'', PFloat 1),
       (''args'', PList [PInt 1, PInt 3, PUni ''/etc/passwd''])],
      [(''I'', PInt 5), (''T'', PInt (- 1)), (''t'', PFloat 2),
       (''args'', PList [PInt 1, PInt 4, PUni ''/etc/hosts''])],
      [(''I'', PInt 600), (''T'', PInt (- 1)), (''t'', PFloat 3),
       (''args'', PList [PInt 1, PInt 42])]]"
  by (simp add: sender_eval Let_def upt_rec)

theorem info_frame_once_and_first_witness:
  "logtbl_explained example_logger = replicate 512 0
   \<and> map (\<lambda>d. (is_info d, frame_index d)) (fst (emit_all example_sender example_logger example_calls))
       = [(True, Some (PInt 5)), (False, Some (PInt 5)), (False, Some (PInt 5)), (False, Some (PInt 600))]
   \<and> length (filter (info_for 5) (fst (emit_all example_sender example_logger example_calls))) \<le> 1
   \<and> py_nth (logtbl_explained (snd (emit_all example_sender example_logger example_calls))) 5 = Some 1"
proof -
  have h: "logtbl_explained example_logger = replicate 512 0"
    by (simp add: example_logger_def ResultLogger_init_def)
  note t = info_frame_once_and_first [OF h, of 5 example_sender example_calls]
  have shape: "map (\<lambda>d. (is_info d, frame_index d)) (fst (emit_all example_sender example_logger example_calls))
       = [(True, Some (PInt 5)), (False, Some (PInt 5)), (False, Some (PInt 5)), (False, Some (PInt 600))]"
    unfolding example_trace by (simp add: is_info_def frame_index_def)
  have "[(''I'', PInt 5), (''T'', PInt (- 1)), (''t'', PFloat 1),
         (''args'', PList [PInt 1, PInt 3, PUni ''/etc/passwd''])]
          \<in> set (fst (emit_all example_sender example_logger example_calls))"
    unfolding example_trace by simp
  moreover have "data_for 5 [(''I'', PInt 5), (''T'', PInt (- 1)), (''t'', PFloat 1),
         (''args'', PList [PInt 1, PInt 3, PUni ''/etc/passwd''])]"
    by (simp add: data_for_def is_info_def frame_index_def)
  ultimately have "py_nth (logtbl_explained (snd (emit_all example_sender example_logger example_calls))) 5 = Some 1"
    using t by force
  with h shape t show ?thesis by blast
qed

end
